theory Spec2Isabelle
  imports Complex_Main "HOL-Library.Sublist"
begin

section \<open>JavaScript strings\<close>

text \<open>
  A string is a list of code units; the type \<open>char\<close> holds the code units below 256, so the
  model covers Latin-1 text. Case mapping and white space are those of the language on these
  code units: the 26 letters and the accented letters from U+00C0 to U+00FE, and, for
  \<^verbatim>\<open>trim\<close> and \<^verbatim>\<open>\s\<close>, tab to carriage return, the space and the no-break space U+00A0.
  The double quote and the apostrophe are written as character codes.
\<close>

definition dq :: char where "dq = CHR 0x22"
definition sq :: char where "sq = CHR 0x27"

definition upperChars :: string where "upperChars = ''ABCDEFGHIJKLMNOPQRSTUVWXYZ''"
definition lowerChars :: string where "lowerChars = ''abcdefghijklmnopqrstuvwxyz''"
definition digitChars :: string where "digitChars = ''0123456789''"

text \<open>U+00C0 to U+00DE without the multiplication sign, and U+00E0 to U+00FE without the division sign.\<close>

definition latin1Upper :: string where
  "latin1Upper =
     [CHR 0xC0, CHR 0xC1, CHR 0xC2, CHR 0xC3, CHR 0xC4, CHR 0xC5, CHR 0xC6, CHR 0xC7, CHR 0xC8,
     CHR 0xC9, CHR 0xCA, CHR 0xCB, CHR 0xCC, CHR 0xCD, CHR 0xCE, CHR 0xCF, CHR 0xD0, CHR 0xD1,
     CHR 0xD2, CHR 0xD3, CHR 0xD4, CHR 0xD5, CHR 0xD6, CHR 0xD8, CHR 0xD9, CHR 0xDA, CHR 0xDB,
     CHR 0xDC, CHR 0xDD, CHR 0xDE]"

definition latin1Lower :: string where
  "latin1Lower =
     [CHR 0xE0, CHR 0xE1, CHR 0xE2, CHR 0xE3, CHR 0xE4, CHR 0xE5, CHR 0xE6, CHR 0xE7, CHR 0xE8,
     CHR 0xE9, CHR 0xEA, CHR 0xEB, CHR 0xEC, CHR 0xED, CHR 0xEE, CHR 0xEF, CHR 0xF0, CHR 0xF1,
     CHR 0xF2, CHR 0xF3, CHR 0xF4, CHR 0xF5, CHR 0xF6, CHR 0xF8, CHR 0xF9, CHR 0xFA, CHR 0xFB,
     CHR 0xFC, CHR 0xFD, CHR 0xFE]"

definition whiteSpace :: string where
  "whiteSpace = [CHR 0x09, CHR 0x0A, CHR 0x0B, CHR 0x0C, CHR 0x0D, CHR 0x20, CHR 0xA0]"

definition lineTerminators :: string where
  "lineTerminators = [CHR 0x0A, CHR 0x0D]"

definition toLowerChar :: "char \<Rightarrow> char" where
  "toLowerChar c =
     (case map_of (zip (upperChars @ latin1Upper) (lowerChars @ latin1Lower)) c of
        Some l \<Rightarrow> l
      | None \<Rightarrow> c)"

text \<open>
  The upper-case form a pattern with flag \<^verbatim>\<open>i\<close> compares by. The sharp s, the micro sign
  and the y with diaeresis have no upper-case form that is one code unit below 256; they stay
  as they are, which keeps them apart from every other code unit, as the language does.
\<close>

definition toUpperChar :: "char \<Rightarrow> char" where
  "toUpperChar c =
     (case map_of (zip (lowerChars @ latin1Lower) (upperChars @ latin1Upper)) c of
        Some u \<Rightarrow> u
      | None \<Rightarrow> c)"

definition toLowerCase :: "string \<Rightarrow> string" where
  "toLowerCase s = map toLowerChar s"

definition isWhiteSpace :: "char \<Rightarrow> bool" where
  "isWhiteSpace c = List.member whiteSpace c"

definition trim :: "string \<Rightarrow> string" where
  "trim s = rev (dropWhile isWhiteSpace (rev (dropWhile isWhiteSpace s)))"

definition startsWith :: "string \<Rightarrow> string \<Rightarrow> bool" where
  "startsWith s p = (take (length p) s = p)"

definition endsWith :: "string \<Rightarrow> string \<Rightarrow> bool" where
  "endsWith s p = (length p \<le> length s \<and> drop (length s - length p) s = p)"

text \<open>\<^verbatim>\<open>s.substring(a, b)\<close> for \<^verbatim>\<open>0 <= a <= b <= s.length\<close>, the only use in the source.\<close>

definition substring :: "string \<Rightarrow> nat \<Rightarrow> nat \<Rightarrow> string" where
  "substring s a b = take (b - a) (drop a s)"

text \<open>\<^verbatim>\<open>s.indexOf(t)\<close>: the first position where \<open>t\<close> starts, \<open>None\<close> for -1.\<close>

fun indexOfFrom :: "nat \<Rightarrow> string \<Rightarrow> string \<Rightarrow> nat option" where
  "indexOfFrom i [] t = (if t = [] then Some i else None)"
| "indexOfFrom i (c # cs) t =
     (if startsWith (c # cs) t then Some i else indexOfFrom (Suc i) cs t)"

definition indexOf :: "string \<Rightarrow> string \<Rightarrow> nat option" where
  "indexOf s t = indexOfFrom 0 s t"

text \<open>\<^verbatim>\<open>s.includes(t)\<close>\<close>

definition stringIncludes :: "string \<Rightarrow> string \<Rightarrow> bool" where
  "stringIncludes s t = (indexOf s t \<noteq> None)"

text \<open>\<^verbatim>\<open>s.split("\n")\<close>: the pieces between the line feeds, one more than there are line feeds.\<close>

fun splitLines :: "string \<Rightarrow> string list" where
  "splitLines [] = [[]]"
| "splitLines (c # cs) =
     (if c = CHR 0x0A then [] # splitLines cs
      else (case splitLines cs of l # ls \<Rightarrow> (c # l) # ls | [] \<Rightarrow> [[c]]))"

text \<open>The decimal form of a non-negative integer, as a template literal prints it.\<close>

function numberToString :: "nat \<Rightarrow> string" where
  "numberToString n =
     (if n < 10 then [digitChars ! n]
      else numberToString (n div 10) @ [digitChars ! (n mod 10)])"
  by pat_completeness auto
termination
  by (relation "measure id") auto

declare numberToString.simps [simp del]

text \<open>
  \<^verbatim>\<open>Number.parseInt\<close> on a string that starts with decimal digits, which is all the source
  passes to it (the capture of \<^verbatim>\<open>[1-6]\<close>).
\<close>

definition digitValue :: "char \<Rightarrow> nat" where
  "digitValue c = (case map_of (zip digitChars [0 ..< 10]) c of Some d \<Rightarrow> d | None \<Rightarrow> 0)"

definition parseInt :: "string \<Rightarrow> nat" where
  "parseInt s =
     fold (\<lambda>c n. 10 * n + digitValue c) (takeWhile (List.member digitChars) s) 0"

text \<open>A falsy optional string is \<^verbatim>\<open>undefined\<close> or the empty string.\<close>

fun truthy :: "string option \<Rightarrow> bool" where
  "truthy None = False"
| "truthy (Some s) = (s \<noteq> [])"

text \<open>\<^verbatim>\<open>a || d\<close> on an optional string.\<close>

definition orElse :: "string option \<Rightarrow> string \<Rightarrow> string" where
  "orElse a d = (case a of Some s \<Rightarrow> (if s = [] then d else s) | None \<Rightarrow> d)"

section \<open>Regular expressions\<close>

text \<open>
  The patterns of the source are values of \<open>regex\<close>; \<open>rmatch\<close> is the backtracking matcher
  of the language: it returns, in the order backtracking tries them, every way the pattern
  matches at the start of the input (the rest of the input and the captures), so the head of
  the list is the match \<^verbatim>\<open>exec\<close> reports. \<open>Star True\<close> is the greedy \<^verbatim>\<open>*\<close>, \<open>Star False\<close> the
  lazy \<^verbatim>\<open>*?\<close>; an iteration that consumes nothing is rejected. \<open>Cls negated members\<close> is a
  character class, \<open>Grp n\<close> the n-th capturing group, \<open>Ref n\<close> the backreference \<^verbatim>\<open>\n\<close>.
\<close>

datatype regex =
    Lit char
  | Dot
  | Cls bool string
  | Eps
  | Cat regex regex
  | Alt regex regex
  | Star bool regex
  | Grp nat regex
  | Ref nat

record flags =
  ignoreCase :: bool
  dotAll :: bool

type_synonym captures = "(nat \<times> string) list"
type_synonym mstate = "string \<times> captures"

definition canonicalize :: "flags \<Rightarrow> char \<Rightarrow> char" where
  "canonicalize fl c = (if ignoreCase fl then toUpperChar c else c)"

definition classMatches :: "flags \<Rightarrow> bool \<Rightarrow> string \<Rightarrow> char \<Rightarrow> bool" where
  "classMatches fl negated members c =
     (List.member (map (canonicalize fl) members) (canonicalize fl c) \<noteq> negated)"

fun matchLiteral :: "flags \<Rightarrow> string \<Rightarrow> string \<Rightarrow> string option" where
  "matchLiteral fl [] s = Some s"
| "matchLiteral fl (p # ps) [] = None"
| "matchLiteral fl (p # ps) (c # cs) =
     (if canonicalize fl p = canonicalize fl c then matchLiteral fl ps cs else None)"

function rmatch :: "flags \<Rightarrow> regex \<Rightarrow> mstate \<Rightarrow> mstate list" where
  "rmatch fl (Lit p) st =
     (case fst st of [] \<Rightarrow> []
      | c # cs \<Rightarrow> if canonicalize fl p = canonicalize fl c then [(cs, snd st)] else [])"
| "rmatch fl Dot st =
     (case fst st of [] \<Rightarrow> []
      | c # cs \<Rightarrow>
          if dotAll fl \<or> \<not> List.member lineTerminators c then [(cs, snd st)] else [])"
| "rmatch fl (Cls negated members) st =
     (case fst st of [] \<Rightarrow> []
      | c # cs \<Rightarrow> if classMatches fl negated members c then [(cs, snd st)] else [])"
| "rmatch fl Eps st = [st]"
| "rmatch fl (Cat a b) st = concat (map (rmatch fl b) (rmatch fl a st))"
| "rmatch fl (Alt a b) st = rmatch fl a st @ rmatch fl b st"
| "rmatch fl (Star greedy r) st =
     (let more = concat (map (\<lambda>st'. if length (fst st') < length (fst st)
                                      then rmatch fl (Star greedy r) st' else [])
                             (rmatch fl r st))
      in if greedy then more @ [st] else st # more)"
| "rmatch fl (Grp n r) st =
     map (\<lambda>st'. (fst st', (n, take (length (fst st) - length (fst st')) (fst st)) # snd st'))
         (rmatch fl r st)"
| "rmatch fl (Ref n) st =
     (case map_of (snd st) n of None \<Rightarrow> [st]
      | Some t \<Rightarrow>
          (case matchLiteral fl t (fst st) of None \<Rightarrow> [] | Some s' \<Rightarrow> [(s', snd st)]))"
  by pat_completeness auto
termination
  by (relation "inv_image (less_than <*lex*> less_than)
                  (\<lambda>(fl, r, st). (size r, length (fst st)))") auto

text \<open>
  One match: \<open>index\<close> is where it starts in the searched string, \<open>matched\<close> is \<^verbatim>\<open>match[0]\<close>,
  \<open>groups\<close> the captures and \<open>remainder\<close> the input after the match.
\<close>

record rmatch_result =
  index :: nat
  matched :: string
  groups :: captures
  remainder :: string

text \<open>\<^verbatim>\<open>match[n]\<close>; every group of the source's patterns takes part in every match.\<close>

definition group :: "rmatch_result \<Rightarrow> nat \<Rightarrow> string" where
  "group m n = (case map_of (groups m) n of Some t \<Rightarrow> t | None \<Rightarrow> [])"

text \<open>The leftmost match: \<^verbatim>\<open>s.match(r)\<close> and \<^verbatim>\<open>r.exec(s)\<close> for a pattern without \<^verbatim>\<open>g\<close>.\<close>

fun searchFrom :: "flags \<Rightarrow> regex \<Rightarrow> nat \<Rightarrow> string \<Rightarrow> rmatch_result option" where
  "searchFrom fl r i s =
     (case rmatch fl r (s, []) of
        (s', caps) # _ \<Rightarrow>
          Some \<lparr>index = i, matched = take (length s - length s') s, groups = caps,
                remainder = s'\<rparr>
      | [] \<Rightarrow> (case s of [] \<Rightarrow> None | _ # cs \<Rightarrow> searchFrom fl r (Suc i) cs))"

declare searchFrom.simps [simp del]

definition search :: "flags \<Rightarrow> regex \<Rightarrow> string \<Rightarrow> rmatch_result option" where
  "search fl r s = searchFrom fl r 0 s"

definition test :: "flags \<Rightarrow> regex \<Rightarrow> string \<Rightarrow> bool" where
  "test fl r s = (search fl r s \<noteq> None)"

text \<open>
  \<^verbatim>\<open>while ((match = r.exec(s)) !== null)\<close> for a pattern with \<^verbatim>\<open>g\<close>: the matches from left to
  right, each search starting where the last match ended. No pattern the source loops over
  matches the empty string, so the search position always advances and the guard below always
  holds (\<open>execAll_advances\<close>, \<open>loop_patterns_consume\<close>).
\<close>

function execAll :: "flags \<Rightarrow> regex \<Rightarrow> string \<Rightarrow> rmatch_result list" where
  "execAll fl r s =
     (case search fl r s of
        None \<Rightarrow> []
      | Some m \<Rightarrow>
          if length (remainder m) < length s then m # execAll fl r (remainder m) else [m])"
  by pat_completeness auto
termination
  by (relation "measure (\<lambda>(fl, r, s). length s)") auto

declare execAll.simps [simp del]

text \<open>\<^verbatim>\<open>s.replace(r, rep)\<close> for a pattern with \<^verbatim>\<open>g\<close> and a constant replacement.\<close>

function replaceAll :: "flags \<Rightarrow> regex \<Rightarrow> string \<Rightarrow> string \<Rightarrow> string" where
  "replaceAll fl r rep s =
     (case search fl r s of
        None \<Rightarrow> s
      | Some m \<Rightarrow>
          if length (remainder m) < length s
          then take (index m) s @ rep @ replaceAll fl r rep (remainder m)
          else s)"
  by pat_completeness auto
termination
  by (relation "measure (\<lambda>(fl, r, rep, s). length s)") auto

declare replaceAll.simps [simp del]

text \<open>
  A pattern that is not \<open>nullable\<close> consumes at least one character in every match (shown
  below as \<open>rmatch_length\<close>), so the loops over its matches advance.
\<close>

fun nullable :: "regex \<Rightarrow> bool" where
  "nullable (Lit c) = False"
| "nullable Dot = False"
| "nullable (Cls negated members) = False"
| "nullable Eps = True"
| "nullable (Cat a b) = (nullable a \<and> nullable b)"
| "nullable (Alt a b) = (nullable a \<or> nullable b)"
| "nullable (Star greedy r) = True"
| "nullable (Grp n r) = nullable r"
| "nullable (Ref n) = True"

definition lit :: "string \<Rightarrow> regex" where
  "lit s = foldr (\<lambda>c r. Cat (Lit c) r) s Eps"

definition seq :: "regex list \<Rightarrow> regex" where
  "seq rs = foldr Cat rs Eps"

definition plus :: "regex \<Rightarrow> regex" where
  "plus r = Cat r (Star True r)"

definition flagsNone :: flags where "flagsNone = \<lparr>ignoreCase = False, dotAll = False\<rparr>"
definition flagsI :: flags where "flagsI = \<lparr>ignoreCase = True, dotAll = False\<rparr>"
definition flagsIS :: flags where "flagsIS = \<lparr>ignoreCase = True, dotAll = True\<rparr>"

text \<open>\<^verbatim>\<open>/<[^>]*>/g\<close>: a tag.\<close>

definition tagRegex :: regex where
  "tagRegex = seq [Lit CHR ''<'', Star True (Cls True ''>''), Lit CHR ''>'']"

text \<open>
  \<^verbatim>\<open>/\{[\s\S]*\}/\<close>: the class \<^verbatim>\<open>[\s\S]\<close> accepts every code unit, as the complement of the
  empty class does. \<^verbatim>\<open>/['"]/g\<close>: a quote.
\<close>

definition braceRegex :: regex where
  "braceRegex = seq [Lit CHR ''{'', Star True (Cls True []), Lit CHR ''}'']"

definition quoteRegex :: regex where
  "quoteRegex = Cls False [sq, dq]"

section \<open>Data model (src/lib/wcag-validator.tsx, lib/accessibility-checker)\<close>

datatype Severity = High | Medium | Low

text \<open>
  \<^verbatim>\<open>interface ValidationResult\<close>: \<open>element\<close> is the only optional field.
\<close>

record ValidationResult =
  ruleId :: string
  passed :: bool
  severity :: Severity
  element :: "string option"
  message :: string
  suggestion :: string
  autoFixable :: bool

text \<open>An image descriptor, \<^verbatim>\<open>{ src: string; alt?: string; data?: string; mimeType?: string }\<close>.\<close>

record Image =
  src :: string
  alt :: "string option"
  data :: "string option"
  mimeType :: "string option"

text \<open>
  The \<^verbatim>\<open>color\<close> package is not part of the repository; the validator takes it as a
  parameter. \<open>parseColor\<close> is the constructor \<^verbatim>\<open>Color(s)\<close> (\<open>None\<close> when it throws);
  the two measures return the value of the floating-point number they compute.
\<close>

record 'c ColorLib =
  parseColor :: "string \<Rightarrow> 'c option"
  contrast :: "'c \<Rightarrow> 'c \<Rightarrow> rat"
  luminosity :: "'c \<Rightarrow> rat"

text \<open>\<^verbatim>\<open>x.toFixed(2)\<close>: the nearest multiple of 1/100, the larger one at a tie.\<close>

definition toFixed2 :: "rat \<Rightarrow> string" where
  "toFixed2 x =
     (let n = nat \<lfloor>\<bar>x\<bar> * 100 + 1 / 2\<rfloor>
      in (if x < 0 then ''-'' else []) @ numberToString (n div 100) @ ''.''
           @ [digitChars ! (n div 10 mod 10), digitChars ! (n mod 10)])"

section \<open>WCAGValidator (src/lib/wcag-validator.tsx)\<close>

subsection \<open>validateImages\<close>

definition genericTerms :: "string list" where
  "genericTerms = [''image'', ''picture'', ''photo'', ''graphic'', ''icon'', ''logo'', ''banner'',
     ''untitled'', ''img'', ''pic'', ''screenshot'']"

definition isGenericAltText :: "string \<Rightarrow> bool" where
  "isGenericAltText altText =
     (let lowerAlt = trim (toLowerCase altText)
      in list_ex (\<lambda>term. lowerAlt = term \<or> startsWith lowerAlt (term @ '' '')
                          \<or> endsWith lowerAlt ('' '' @ term)) genericTerms)"

definition missingAltResult :: "string \<Rightarrow> ValidationResult" where
  "missingAltResult el =
     \<lparr>ruleId = ''1.1.1'', passed = False, severity = High, element = Some el,
      message = ''Image is missing alt text'',
      suggestion = ''Add descriptive alt text that conveys the purpose and content of the image'',
      autoFixable = True\<rparr>"

definition longAltResult :: "string \<Rightarrow> ValidationResult" where
  "longAltResult el =
     \<lparr>ruleId = ''1.1.1'', passed = False, severity = Medium, element = Some el,
      message = ''Alt text is too long (over 125 characters)'',
      suggestion = ''Shorten alt text while maintaining essential information'',
      autoFixable = True\<rparr>"

definition genericAltResult :: "string \<Rightarrow> ValidationResult" where
  "genericAltResult el =
     \<lparr>ruleId = ''1.1.1'', passed = False, severity = Medium, element = Some el,
      message = ''Alt text appears to be generic or non-descriptive'',
      suggestion = ''Use more specific, descriptive alt text that explains the image content'',
      autoFixable = True\<rparr>"

text \<open>
  The callback of \<^verbatim>\<open>images.forEach((image, index) => ...)\<close>: the results array after the
  callback ran on one image. \<^verbatim>\<open>!image.alt\<close> holds for a missing and for an empty alt.
\<close>

definition validateImage :: "nat \<Rightarrow> Image \<Rightarrow> ValidationResult list \<Rightarrow> ValidationResult list" where
  "validateImage i img results =
     (let el = ''Image '' @ numberToString (i + 1) @ '' ('' @ src img @ '')''
      in case alt img of
           None \<Rightarrow> results @ [missingAltResult el]
         | Some a \<Rightarrow>
             if a = [] \<or> length (trim a) = 0 then results @ [missingAltResult el]
             else if length a > 125 then results @ [longAltResult el]
             else if isGenericAltText a then results @ [genericAltResult el]
             else results)"

definition validateImages :: "Image list \<Rightarrow> ValidationResult list" where
  "validateImages images =
     fold (\<lambda>(i, img) results. validateImage i img results) (enumerate 0 images) []"

subsection \<open>validateHeadings\<close>

text \<open>\<^verbatim>\<open>/<h([1-6])[^>]*>(.*?)<\/h[1-6]>/gi\<close>\<close>

definition headingRegex :: regex where
  "headingRegex =
     seq [lit ''<h'', Grp 1 (Cls False ''123456''), Star True (Cls True ''>''), Lit CHR ''>'',
          Grp 2 (Star False Dot), lit ''</h'', Cls False ''123456'', Lit CHR ''>'']"

record Heading =
  level :: nat
  headingText :: string
  headingIndex :: nat

text \<open>
  The loop that fills \<^verbatim>\<open>headings\<close> (the same in validateHeadings and in
  checkHeadingStructure): level from group 1, text from group 2 with the tags removed, trimmed.
\<close>

definition extractHeadings :: "string \<Rightarrow> Heading list" where
  "extractHeadings content =
     map (\<lambda>(i, m). \<lparr>level = parseInt (group m 1),
                     headingText = trim (replaceAll flagsNone tagRegex [] (group m 2)),
                     headingIndex = i\<rparr>)
         (enumerate 0 (execAll flagsI headingRegex content))"

definition missingH1Result :: ValidationResult where
  "missingH1Result =
     \<lparr>ruleId = ''2.4.6'', passed = False, severity = High, element = None,
      message = ''Page is missing an H1 heading'',
      suggestion = ''Add a main H1 heading that describes the page content'',
      autoFixable = False\<rparr>"

definition multipleH1Result :: ValidationResult where
  "multipleH1Result =
     \<lparr>ruleId = ''2.4.6'', passed = False, severity = Medium, element = None,
      message = ''Page has multiple H1 headings'',
      suggestion = ''Use only one H1 heading per page'',
      autoFixable = False\<rparr>"

definition h1Results :: "Heading list \<Rightarrow> ValidationResult list" where
  "h1Results headings =
     (let h1Count = length (filter (\<lambda>h. level h = 1) headings)
      in if h1Count = 0 then [missingH1Result]
         else if h1Count > 1 then [multipleH1Result]
         else [])"

text \<open>\<^verbatim>\<open>for (let i = 1; i < headings.length; i++)\<close>: both indices are in range.\<close>

definition hierarchyResults :: "Heading list \<Rightarrow> ValidationResult list" where
  "hierarchyResults headings =
     concat (map (\<lambda>i.
        let current = headings ! i; previous = headings ! (i - 1)
        in if level current > level previous + 1 then
             [\<lparr>ruleId = ''1.3.1'', passed = False, severity = Medium,
               element = Some (''Heading '' @ numberToString (i + 1)),
               message = ''Heading level skips from H'' @ numberToString (level previous)
                         @ '' to H'' @ numberToString (level current),
               suggestion = ''Use H'' @ numberToString (level previous + 1) @ '' instead of H''
                         @ numberToString (level current) @ '' to maintain proper hierarchy'',
               autoFixable = True\<rparr>]
           else []) [1 ..< length headings])"

definition emptyHeadingResults :: "Heading list \<Rightarrow> ValidationResult list" where
  "emptyHeadingResults headings =
     concat (map (\<lambda>(i, heading).
        if headingText heading = [] then
          [\<lparr>ruleId = ''2.4.6'', passed = False, severity = High,
            element = Some (''Heading '' @ numberToString (i + 1)),
            message = ''Heading is empty'',
            suggestion = ''Add descriptive text that explains the section content'',
            autoFixable = False\<rparr>]
        else if length (headingText heading) < 3 then
          [\<lparr>ruleId = ''2.4.6'', passed = False, severity = Low,
            element = Some (''Heading '' @ numberToString (i + 1)),
            message = ''Heading text is very short'',
            suggestion = ''Consider using more descriptive heading text'',
            autoFixable = False\<rparr>]
        else []) (enumerate 0 headings))"

definition validateHeadings :: "string \<Rightarrow> ValidationResult list" where
  "validateHeadings content =
     (let headings = extractHeadings content
      in h1Results headings @ hierarchyResults headings @ emptyHeadingResults headings)"

subsection \<open>validateColorContrast\<close>

text \<open>\<^verbatim>\<open>/style="([^"]*)"/gi\<close>, \<^verbatim>\<open>/color:\s*([^;]+)/i\<close> and \<^verbatim>\<open>/background-color:\s*([^;]+)/i\<close>\<close>

definition styleRegex :: regex where
  "styleRegex = seq [lit ''style='', Lit dq, Grp 1 (Star True (Cls True [dq])), Lit dq]"

definition colorRegex :: regex where
  "colorRegex = seq [lit ''color:'', Star True (Cls False whiteSpace), Grp 1 (plus (Cls True '';''))]"

definition bgColorRegex :: regex where
  "bgColorRegex =
     seq [lit ''background-color:'', Star True (Cls False whiteSpace), Grp 1 (plus (Cls True '';''))]"

text \<open>
  One style attribute. The \<^verbatim>\<open>try\<close> block throws where a colour does not parse, and the
  \<^verbatim>\<open>catch\<close> pushes the low-severity result.
\<close>

definition contrastResults :: "'c ColorLib \<Rightarrow> string \<Rightarrow> ValidationResult list" where
  "contrastResults cl style =
     (case (search flagsI colorRegex style, search flagsI bgColorRegex style) of
        (Some colorMatch, Some bgColorMatch) \<Rightarrow>
          (case (parseColor cl (trim (group colorMatch 1)),
                 parseColor cl (trim (group bgColorMatch 1))) of
             (Some textColor, Some bgColor) \<Rightarrow>
               (let ratio = contrast cl textColor bgColor
                in if ratio < 9 / 2 then
                     [\<lparr>ruleId = ''1.4.3'', passed = False,
                       severity = (if ratio < 3 then High else Medium), element = None,
                       message = ''Color contrast ratio is '' @ toFixed2 ratio
                                 @ '':1 (minimum required: 4.5:1)'',
                       suggestion = ''Increase contrast between text and background colors'',
                       autoFixable = False\<rparr>]
                   else [])
           | _ \<Rightarrow>
               [\<lparr>ruleId = ''1.4.3'', passed = False, severity = Low, element = None,
                 message = ''Unable to parse color values for contrast checking'',
                 suggestion = ''Use valid CSS color values'',
                 autoFixable = False\<rparr>])
      | _ \<Rightarrow> [])"

definition validateColorContrast :: "'c ColorLib \<Rightarrow> string \<Rightarrow> ValidationResult list" where
  "validateColorContrast cl content =
     concat (map (\<lambda>m. contrastResults cl (group m 1)) (execAll flagsI styleRegex content))"

subsection \<open>validateSemanticStructure\<close>

text \<open>
  \<^verbatim>\<open>/<(ul|ol)[^>]*>(.*?)<\/\1>/gis\<close>, \<^verbatim>\<open>/<li[^>]*>.*?<\/li>/gi\<close>,
  \<^verbatim>\<open>/<table[^>]*>(.*?)<\/table>/gis\<close>, \<^verbatim>\<open>/<th[^>]*>/i\<close> and
  \<^verbatim>\<open>/scope\s*=\s*["'](?:col|row)["']/i\<close>
\<close>

definition listRegex :: regex where
  "listRegex =
     seq [Lit CHR ''<'', Grp 1 (Alt (lit ''ul'') (lit ''ol'')), Star True (Cls True ''>''),
          Lit CHR ''>'', Grp 2 (Star False Dot), lit ''</'', Ref 1, Lit CHR ''>'']"

definition liRegex :: regex where
  "liRegex =
     seq [lit ''<li'', Star True (Cls True ''>''), Lit CHR ''>'', Star False Dot, lit ''</li>'']"

definition tableRegex :: regex where
  "tableRegex =
     seq [lit ''<table'', Star True (Cls True ''>''), Lit CHR ''>'', Grp 1 (Star False Dot),
          lit ''</table>'']"

definition thRegex :: regex where
  "thRegex = seq [lit ''<th'', Star True (Cls True ''>''), Lit CHR ''>'']"

definition scopeRegex :: regex where
  "scopeRegex =
     seq [lit ''scope'', Star True (Cls False whiteSpace), Lit CHR ''='',
          Star True (Cls False whiteSpace), Cls False [dq, sq], Alt (lit ''col'') (lit ''row''),
          Cls False [dq, sq]]"

definition listResults :: "string \<Rightarrow> ValidationResult list" where
  "listResults content =
     concat (map (\<lambda>m.
        let listContent = group m 2;
            listItems = execAll flagsI liRegex listContent
        in if listItems = [] then
             [\<lparr>ruleId = ''1.3.1'', passed = False, severity = Medium, element = None,
               message = ''List element contains no list items'',
               suggestion = ''Add <li> elements inside list containers or remove empty list'',
               autoFixable = False\<rparr>]
           else []) (execAll flagsIS listRegex content))"

definition tableResults :: "string \<Rightarrow> ValidationResult list" where
  "tableResults content =
     concat (map (\<lambda>m.
        let tableContent = group m 1;
            hasHeaders = (test flagsI thRegex tableContent \<or> test flagsI scopeRegex tableContent)
        in if \<not> hasHeaders then
             [\<lparr>ruleId = ''1.3.1'', passed = False, severity = Medium, element = None,
               message = ''Table is missing proper headers'',
               suggestion = ''Add <th> elements or scope attributes to identify table headers'',
               autoFixable = False\<rparr>]
           else []) (execAll flagsIS tableRegex content))"

definition validateSemanticStructure :: "string \<Rightarrow> ValidationResult list" where
  "validateSemanticStructure content = listResults content @ tableResults content"

subsection \<open>validateARIA\<close>

text \<open>
  \<^verbatim>\<open>/<(button|input|select|textarea)[^>]*>/gi\<close>, \<^verbatim>\<open>/aria-label\s*=/i\<close>,
  \<^verbatim>\<open>/aria-labelledby\s*=/i\<close>, \<^verbatim>\<open>/type\s*=\s*["']submit["']/i\<close>, \<^verbatim>\<open>/value\s*=/i\<close> and
  \<^verbatim>\<open>/aria-([a-z]+)\s*=/gi\<close>
\<close>

definition interactiveRegex :: regex where
  "interactiveRegex =
     seq [Lit CHR ''<'',
          Grp 1 (Alt (lit ''button'') (Alt (lit ''input'') (Alt (lit ''select'') (lit ''textarea'')))),
          Star True (Cls True ''>''), Lit CHR ''>'']"

definition ariaLabelRegex :: regex where
  "ariaLabelRegex = seq [lit ''aria-label'', Star True (Cls False whiteSpace), Lit CHR ''='']"

definition ariaLabelledbyRegex :: regex where
  "ariaLabelledbyRegex =
     seq [lit ''aria-labelledby'', Star True (Cls False whiteSpace), Lit CHR ''='']"

definition typeSubmitRegex :: regex where
  "typeSubmitRegex =
     seq [lit ''type'', Star True (Cls False whiteSpace), Lit CHR ''='',
          Star True (Cls False whiteSpace), Cls False [dq, sq], lit ''submit'', Cls False [dq, sq]]"

definition valueRegex :: regex where
  "valueRegex = seq [lit ''value'', Star True (Cls False whiteSpace), Lit CHR ''='']"

definition ariaRegex :: regex where
  "ariaRegex =
     seq [lit ''aria-'', Grp 1 (plus (Cls False lowerChars)), Star True (Cls False whiteSpace),
          Lit CHR ''='']"

text \<open>
  The pattern built at run time for a button: the matched tag with its special characters
  escaped, which makes it a literal, then \<^verbatim>\<open>(.*?)</button>\<close>, with flag \<^verbatim>\<open>i\<close>.
\<close>

definition buttonContentRegex :: "string \<Rightarrow> regex" where
  "buttonContentRegex tag = seq [lit tag, Grp 1 (Star False Dot), lit ''</button>'']"

definition validARIAAttributes :: "string list" where
  "validARIAAttributes = [''label'', ''labelledby'', ''describedby'', ''expanded'', ''hidden'',
     ''live'', ''atomic'', ''busy'', ''controls'', ''current'', ''details'', ''disabled'',
     ''dropeffect'', ''errormessage'', ''flowto'', ''grabbed'', ''haspopup'', ''invalid'',
     ''keyshortcuts'', ''level'', ''modal'', ''multiline'', ''multiselectable'', ''orientation'',
     ''owns'', ''placeholder'', ''posinset'', ''pressed'', ''readonly'', ''relevant'', ''required'',
     ''roledescription'', ''rowcount'', ''rowindex'', ''rowspan'', ''selected'', ''setsize'',
     ''sort'', ''valuemax'', ''valuemin'', ''valuenow'', ''valuetext'']"

definition isValidARIAAttribute :: "string \<Rightarrow> bool" where
  "isValidARIAAttribute attribute = List.member validARIAAttributes attribute"

definition buttonResult :: ValidationResult where
  "buttonResult =
     \<lparr>ruleId = ''4.1.2'', passed = False, severity = High, element = Some ''Button element'',
      message = ''Button is missing accessible name'',
      suggestion = ''Add aria-label attribute or text content to button'',
      autoFixable = False\<rparr>"

definition inputResult :: ValidationResult where
  "inputResult =
     \<lparr>ruleId = ''4.1.2'', passed = False, severity = High, element = Some ''Input element'',
      message = ''Input is missing accessible name'',
      suggestion = ''Add aria-label, aria-labelledby, or associated label element'',
      autoFixable = False\<rparr>"

text \<open>The body of the loop over the interactive tags, for one match.\<close>

definition interactiveResults :: "string \<Rightarrow> rmatch_result \<Rightarrow> ValidationResult list" where
  "interactiveResults content m =
     (let el = matched m;
          tagName = toLowerCase (group m 1);
          hasLabel = (test flagsI ariaLabelRegex el \<or> test flagsI ariaLabelledbyRegex el
                      \<or> (tagName = ''input'' \<and> test flagsI typeSubmitRegex el)
                      \<or> (tagName = ''input'' \<and> test flagsI valueRegex el))
      in (if \<not> hasLabel \<and> tagName = ''button'' then
            (case search flagsI (buttonContentRegex el) content of
               None \<Rightarrow> [buttonResult]
             | Some buttonContent \<Rightarrow>
                 if trim (group buttonContent 1) = [] then [buttonResult] else [])
          else [])
         @ (if \<not> hasLabel \<and> tagName = ''input'' then [inputResult] else []))"

definition ariaAttributeResults :: "string \<Rightarrow> ValidationResult list" where
  "ariaAttributeResults content =
     concat (map (\<lambda>m.
        let ariaAttribute = group m 1
        in if \<not> isValidARIAAttribute ariaAttribute then
             [\<lparr>ruleId = ''4.1.2'', passed = False, severity = Low, element = None,
               message = ''Invalid ARIA attribute: aria-'' @ ariaAttribute,
               suggestion = ''Use valid ARIA attributes according to the specification'',
               autoFixable = False\<rparr>]
           else []) (execAll flagsI ariaRegex content))"

definition validateARIA :: "string \<Rightarrow> ValidationResult list" where
  "validateARIA content =
     concat (map (interactiveResults content) (execAll flagsI interactiveRegex content))
     @ ariaAttributeResults content"

subsection \<open>validateContent\<close>

definition validateContent :: "'c ColorLib \<Rightarrow> string \<Rightarrow> Image list \<Rightarrow> ValidationResult list" where
  "validateContent cl content images =
     validateImages images @ validateHeadings content @ validateColorContrast cl content
     @ validateSemanticStructure content @ validateARIA content"

section \<open>WCAGValidator.calculateScore\<close>

text \<open>\<^verbatim>\<open>const weights = { high: 15, medium: 10, low: 5 }\<close>\<close>

fun weights :: "Severity \<Rightarrow> int" where
  "weights High = 15"
| "weights Medium = 10"
| "weights Low = 5"

text \<open>
  \<^verbatim>\<open>results.filter((result) => !result.passed)
         .reduce((sum, result) => sum + weights[result.severity], 0)\<close>
  followed by \<^verbatim>\<open>Math.max(0, 100 - totalDeduction)\<close>. The reduction is a left fold
  from 0; the sums are small integers, exact in a JavaScript number.
\<close>

definition totalDeduction :: "ValidationResult list \<Rightarrow> int" where
  "totalDeduction results =
     fold (\<lambda>result sum. sum + weights (severity result))
          (filter (\<lambda>result. \<not> passed result) results) 0"

definition calculateScore :: "ValidationResult list \<Rightarrow> int" where
  "calculateScore results = max 0 (100 - totalDeduction results)"

section \<open>ImageAnalyzer (src/lib/wcag-validator.tsx)\<close>

record Accessibility =
  hasText :: bool
  isComplex :: bool
  needsLongDescription :: bool
  suggestedLongDescription :: "string option"

text \<open>
  \<^verbatim>\<open>interface ImageAnalysis\<close>. The interface declares \<^verbatim>\<open>confidence\<close> as one of three
  strings, but the parsers below store whatever string the reply holds (the source casts it
  with \<^verbatim>\<open>as any\<close>), so the field is a string.
\<close>

record ImageAnalysis =
  altText :: string
  confidence :: string
  analysisDescription :: string
  analysisContext :: string
  decorative :: bool
  textContent :: "string option"
  accessibility :: Accessibility

datatype IssueType = AltTextType | ContrastType | HeadingType | AriaType | SemanticType

record AccessibilityIssue =
  issueId :: string
  issueType :: IssueType
  issueSeverity :: Severity
  issueElement :: string
  description :: string
  recommendation :: string
  issueAutoFixable :: bool

text \<open>
  The object \<^verbatim>\<open>JSON.parse\<close> returns for the reply of the vision model, read at the fields
  parseAnalysisResponse reads; a field the reply leaves out is \<open>None\<close>.
\<close>

record ParsedAnalysis =
  pAltText :: "string option"
  pConfidence :: "string option"
  pDescription :: "string option"
  pContext :: "string option"
  pDecorative :: "bool option"
  pTextContent :: "string option"
  pAccessibility :: "Accessibility option"

text \<open>
  One entry of the \<^verbatim>\<open>issues\<close> array in the content model's decoded reply; a field the reply
  leaves out is \<open>None\<close>.
\<close>

record GeminiIssue =
  gType :: "IssueType option"
  gSeverity :: Severity
  gElement :: "string option"
  gDescription :: "string option"
  gRecommendation :: "string option"
  gAutoFixable :: "bool option"

text \<open>
  The decoded reply of the content model; \<open>analysisIssues\<close> is \<open>None\<close> when
  \<^verbatim>\<open>analysis.issues\<close> is missing, falsy or not an array.
\<close>

record GeminiAnalysis =
  analysisIssues :: "GeminiIssue list option"

text \<open>What a call of the external service rejects with.\<close>

datatype AIError = ApiError string | TimeoutError

text \<open>
  The Gemini client. The two models are the external service: \<open>visionModel\<close> answers the
  call made for the image at a position of the image list, given the context the prompt is
  built from, the image data and the MIME type; \<open>textModel\<close> answers the call made for a
  content; each either rejects (\<open>Inl\<close>) or replies with a text (\<open>Inr\<close>). The prompts are
  fixed templates around the context and the content. \<^verbatim>\<open>JSON.parse\<close> belongs to the
  language, not to the repository: the two decoders stand for it on the two kinds of reply,
  with \<open>None\<close> where it throws. This is a call that has settled; a call that never settles
  is the subject of the section on awaited calls below.
\<close>

record GeminiClient =
  visionModel :: "nat \<Rightarrow> string \<Rightarrow> string \<Rightarrow> string \<Rightarrow> AIError + string"
  textModel :: "string \<Rightarrow> AIError + string"
  jsonParseAnalysis :: "string \<Rightarrow> ParsedAnalysis option"
  jsonParseContent :: "string \<Rightarrow> GeminiAnalysis option"

definition getFallbackAnalysis :: ImageAnalysis where
  "getFallbackAnalysis =
     \<lparr>altText = ''Image description not available'',
      confidence = ''low'',
      analysisDescription = ''Unable to analyze image'',
      analysisContext = ''Analysis failed'',
      decorative = False,
      textContent = None,
      accessibility = \<lparr>hasText = False, isComplex = False, needsLongDescription = False,
                        suggestedLongDescription = None\<rparr>\<rparr>"

text \<open>
  extractValue: the first line that holds the key, whatever the case of its letters; the
  text after its first colon, trimmed, without quotes; \<open>None\<close> for \<^verbatim>\<open>undefined\<close>.
\<close>

definition extractValue :: "string list \<Rightarrow> string \<Rightarrow> string option" where
  "extractValue lines key =
     (case find (\<lambda>l. stringIncludes (toLowerCase l) (toLowerCase key)) lines of
        Some line \<Rightarrow>
          (case indexOf line '':'' of
             Some colonIndex \<Rightarrow>
               Some (replaceAll flagsNone quoteRegex [] (trim (drop (colonIndex + 1) line)))
           | None \<Rightarrow> None)
      | None \<Rightarrow> None)"

definition parseTextResponse :: "string \<Rightarrow> ImageAnalysis" where
  "parseTextResponse responseText =
     (let lines = filter (\<lambda>line. trim line \<noteq> []) (splitLines responseText)
      in \<lparr>altText = orElse (extractValue lines ''alt'') ''Image description not available'',
          confidence = orElse (extractValue lines ''confidence'') ''medium'',
          analysisDescription =
            orElse (extractValue lines ''description'') ''No description available'',
          analysisContext = orElse (extractValue lines ''context'') ''No context provided'',
          decorative = (extractValue lines ''decorative'' = Some ''true''),
          textContent = extractValue lines ''text'',
          accessibility =
            \<lparr>hasText = (extractValue lines ''hasText'' = Some ''true''),
             isComplex = (extractValue lines ''complex'' = Some ''true''),
             needsLongDescription = (extractValue lines ''longDescription'' = Some ''true''),
             suggestedLongDescription = None\<rparr>\<rparr>)"

text \<open>
  parseAnalysisResponse: the text from the first \<^verbatim>\<open>{\<close> to the last \<^verbatim>\<open>}\<close> goes to
  \<^verbatim>\<open>JSON.parse\<close>, and each field of the object gets its default with \<^verbatim>\<open>||\<close>; where
  \<^verbatim>\<open>JSON.parse\<close> throws, the \<^verbatim>\<open>catch\<close> returns the placeholder; a reply without braces goes
  to parseTextResponse.
\<close>

definition parseAnalysisResponse :: "GeminiClient \<Rightarrow> string \<Rightarrow> ImageAnalysis" where
  "parseAnalysisResponse gc responseText =
     (case search flagsNone braceRegex responseText of
        Some jsonMatch \<Rightarrow>
          (case jsonParseAnalysis gc (matched jsonMatch) of
             Some parsed \<Rightarrow>
               \<lparr>altText = orElse (pAltText parsed) ''Image description not available'',
                confidence = orElse (pConfidence parsed) ''medium'',
                analysisDescription = orElse (pDescription parsed) ''No description available'',
                analysisContext = orElse (pContext parsed) ''No context provided'',
                decorative = (case pDecorative parsed of Some b \<Rightarrow> b | None \<Rightarrow> False),
                textContent = pTextContent parsed,
                accessibility =
                  (case pAccessibility parsed of
                     Some a \<Rightarrow> a
                   | None \<Rightarrow> \<lparr>hasText = False, isComplex = False,
                               needsLongDescription = False,
                               suggestedLongDescription = None\<rparr>)\<rparr>
           | None \<Rightarrow> getFallbackAnalysis)
      | None \<Rightarrow> parseTextResponse responseText)"

text \<open>
  \<^verbatim>\<open>try { ... generateContent ...; return this.parseAnalysisResponse(analysisText) }
  catch (error) { return this.getFallbackAnalysis() }\<close>: what analyzeImage returns once the
  call of the vision model has settled.
\<close>

definition analyzeImage :: "GeminiClient \<Rightarrow> nat \<Rightarrow> string \<Rightarrow> string \<Rightarrow> string \<Rightarrow> ImageAnalysis" where
  "analyzeImage gc callNo imageData mimeTy ctx =
     (case visionModel gc callNo ctx imageData mimeTy of
        Inl error \<Rightarrow> getFallbackAnalysis
      | Inr analysisText \<Rightarrow> parseAnalysisResponse gc analysisText)"

section \<open>GeminiClient.analyzeContentAccessibility (lib/gemini-client)\<close>

text \<open>
  parseAccessibilityAnalysis: the object \<^verbatim>\<open>JSON.parse\<close> returns for the text from the first
  \<^verbatim>\<open>{\<close> to the last \<^verbatim>\<open>}\<close>; without braces, and where \<^verbatim>\<open>JSON.parse\<close> throws, an object whose
  \<^verbatim>\<open>issues\<close> is the empty array.
\<close>

definition parseAccessibilityAnalysis :: "GeminiClient \<Rightarrow> string \<Rightarrow> GeminiAnalysis" where
  "parseAccessibilityAnalysis gc reply =
     (case search flagsNone braceRegex reply of
        Some jsonMatch \<Rightarrow>
          (case jsonParseContent gc (matched jsonMatch) of
             Some analysis \<Rightarrow> analysis
           | None \<Rightarrow> \<lparr>analysisIssues = Some []\<rparr>)
      | None \<Rightarrow> \<lparr>analysisIssues = Some []\<rparr>)"

text \<open>\<^verbatim>\<open>{ success: true, analysis, score }\<close> or \<^verbatim>\<open>{ success: false, error }\<close>\<close>

datatype GeminiResult = GeminiSuccess GeminiAnalysis | GeminiFailure AIError

definition analyzeContentAccessibility :: "GeminiClient \<Rightarrow> string \<Rightarrow> GeminiResult" where
  "analyzeContentAccessibility gc content =
     (case textModel gc content of
        Inl error \<Rightarrow> GeminiFailure error
      | Inr reply \<Rightarrow> GeminiSuccess (parseAccessibilityAnalysis gc reply))"

section \<open>AccessibilityChecker (lib/accessibility-checker)\<close>

definition mapWCAGRuleToType :: "string \<Rightarrow> IssueType" where
  "mapWCAGRuleToType rid =
     (case map_of [(''1.1.1'', AltTextType), (''1.4.3'', ContrastType), (''1.3.1'', SemanticType),
                   (''2.4.6'', HeadingType), (''4.1.2'', AriaType)] rid of
        Some t \<Rightarrow> t
      | None \<Rightarrow> SemanticType)"

text \<open>\<^verbatim>\<open>wcagResults.forEach((result, index) => { if (!result.passed) issues.push(...) })\<close>\<close>

definition wcagIssue :: "nat \<Rightarrow> ValidationResult \<Rightarrow> AccessibilityIssue" where
  "wcagIssue i result =
     \<lparr>issueId = ''wcag-'' @ ruleId result @ ''-'' @ numberToString i,
      issueType = mapWCAGRuleToType (ruleId result),
      issueSeverity = severity result,
      issueElement = orElse (element result) ''Content element'',
      description = message result,
      recommendation = suggestion result,
      issueAutoFixable = autoFixable result\<rparr>"

definition wcagIssues :: "ValidationResult list \<Rightarrow> AccessibilityIssue list" where
  "wcagIssues wcagResults =
     concat (map (\<lambda>(i, result). if \<not> passed result then [wcagIssue i result] else [])
                 (enumerate 0 wcagResults))"

subsection \<open>extractImageContext and hasTextAlternative\<close>

text \<open>
  The pattern built at run time, \<^verbatim>\<open><img[^>]*src=["']SRC["'][^>]*>\<close> with flag \<^verbatim>\<open>i\<close>, where SRC
  is the image source with its special characters escaped, that is, a literal.
\<close>

definition imgRegex :: "string \<Rightarrow> regex" where
  "imgRegex imageSrc =
     seq [lit ''<img'', Star True (Cls True ''>''), lit ''src='', Cls False [dq, sq], lit imageSrc,
          Cls False [dq, sq], Star True (Cls True ''>''), Lit CHR ''>'']"

definition extractImageContext :: "string \<Rightarrow> string \<Rightarrow> string" where
  "extractImageContext content imageSrc =
     (case search flagsI (imgRegex imageSrc) content of
        Some m \<Rightarrow>
          (let imgIndex = (case indexOf content (matched m) of Some i \<Rightarrow> int i | None \<Rightarrow> - 1);
               contextStart = max 0 (imgIndex - 200);
               contextEnd = min (int (length content)) (imgIndex + int (length (matched m)) + 200)
           in trim (replaceAll flagsNone tagRegex '' ''
                      (substring content (nat contextStart) (nat contextEnd))))
      | None \<Rightarrow> [])"

definition hasTextAlternative :: "string \<Rightarrow> string \<Rightarrow> bool" where
  "hasTextAlternative content imageSrc = (length (extractImageContext content imageSrc) > 50)"

subsection \<open>The image loop of checkContent\<close>

type_synonym imageAnalysisEntry = "string \<times> ImageAnalysis"

definition aiAltTextIssue :: "nat \<Rightarrow> ImageAnalysis \<Rightarrow> AccessibilityIssue" where
  "aiAltTextIssue i analysis =
     \<lparr>issueId = ''ai-alt-text-'' @ numberToString i,
      issueType = AltTextType, issueSeverity = High,
      issueElement = ''Image '' @ numberToString (i + 1),
      description = ''Image missing alt text (AI analysis suggests it'' @ [sq] @ ''s informative)'',
      recommendation = ''Suggested alt text: '' @ [dq] @ altText analysis @ [dq],
      issueAutoFixable = True\<rparr>"

text \<open>A missing \<^verbatim>\<open>textContent\<close> prints as \<^verbatim>\<open>undefined\<close> in the template literal.\<close>

definition textInImageIssue :: "nat \<Rightarrow> ImageAnalysis \<Rightarrow> AccessibilityIssue" where
  "textInImageIssue i analysis =
     \<lparr>issueId = ''text-in-image-'' @ numberToString i,
      issueType = AltTextType, issueSeverity = High,
      issueElement = ''Image '' @ numberToString (i + 1),
      description = ''Image contains text but no text alternative is provided'',
      recommendation = ''Provide text alternative: '' @ [dq]
         @ (case textContent analysis of Some t \<Rightarrow> t | None \<Rightarrow> ''undefined'') @ [dq],
      issueAutoFixable = True\<rparr>"

definition complexImageIssue :: "nat \<Rightarrow> ImageAnalysis \<Rightarrow> AccessibilityIssue" where
  "complexImageIssue i analysis =
     \<lparr>issueId = ''complex-image-'' @ numberToString i,
      issueType = AltTextType, issueSeverity = Medium,
      issueElement = ''Image '' @ numberToString (i + 1),
      description = ''Complex image may need long description'',
      recommendation = orElse (suggestedLongDescription (accessibility analysis))
                              ''Consider adding a detailed description'',
      issueAutoFixable = False\<rparr>"

text \<open>The issues the loop body pushes for one analysed image, in the order of the source.\<close>

definition analysisIssues_of :: "string \<Rightarrow> nat \<Rightarrow> Image \<Rightarrow> ImageAnalysis \<Rightarrow> AccessibilityIssue list" where
  "analysisIssues_of content i img analysis =
     (if \<not> truthy (alt img) \<and> \<not> decorative analysis then [aiAltTextIssue i analysis] else [])
     @ (if hasText (accessibility analysis) \<and> \<not> hasTextAlternative content (src img)
        then [textInImageIssue i analysis] else [])
     @ (if needsLongDescription (accessibility analysis) then [complexImageIssue i analysis]
        else [])"

text \<open>
  The body of \<^verbatim>\<open>for (const [index, image] of images.entries())\<close> on the pair of arrays
  \<^verbatim>\<open>issues\<close> and \<^verbatim>\<open>imageAnalyses\<close>. \<^verbatim>\<open>image.data && image.mimeType\<close> needs both present and
  non-empty. analyzeImage does not throw, so the \<^verbatim>\<open>catch\<close> of the body is never entered.
\<close>

definition analyzeImageStep ::
  "GeminiClient \<Rightarrow> string \<Rightarrow> nat \<Rightarrow> Image
     \<Rightarrow> AccessibilityIssue list \<times> imageAnalysisEntry list
     \<Rightarrow> AccessibilityIssue list \<times> imageAnalysisEntry list" where
  "analyzeImageStep gc content i img st =
     (case (data img, mimeType img) of
        (Some d, Some mt) \<Rightarrow>
          if d \<noteq> [] \<and> mt \<noteq> [] then
            (let analysis = analyzeImage gc i d mt (extractImageContext content (src img))
             in (fst st @ analysisIssues_of content i img analysis,
                 snd st @ [(src img, analysis)]))
          else st
      | _ \<Rightarrow> st)"

definition analyzeImages ::
  "GeminiClient \<Rightarrow> string \<Rightarrow> Image list
     \<Rightarrow> AccessibilityIssue list \<times> imageAnalysisEntry list
     \<Rightarrow> AccessibilityIssue list \<times> imageAnalysisEntry list" where
  "analyzeImages gc content images st =
     fold (\<lambda>(i, img) st. analyzeImageStep gc content i img st) (enumerate 0 images) st"

subsection \<open>checkHeadingStructure\<close>

definition headingSkipIssues :: "Heading list \<Rightarrow> AccessibilityIssue list" where
  "headingSkipIssues headings =
     concat (map (\<lambda>i.
        let current = headings ! i; previous = headings ! (i - 1)
        in if level current > level previous + 1 then
             [\<lparr>issueId = ''heading-skip-'' @ numberToString i,
               issueType = HeadingType, issueSeverity = Medium,
               issueElement = ''Heading '' @ numberToString (i + 1),
               description = ''Heading level skips from h'' @ numberToString (level previous)
                             @ '' to h'' @ numberToString (level current),
               recommendation = ''Use h'' @ numberToString (level previous + 1)
                             @ '' instead of h'' @ numberToString (level current),
               issueAutoFixable = True\<rparr>]
           else []) [1 ..< length headings])"

definition headingEmptyIssues :: "Heading list \<Rightarrow> AccessibilityIssue list" where
  "headingEmptyIssues headings =
     concat (map (\<lambda>(i, heading).
        if headingText heading = [] then
          [\<lparr>issueId = ''heading-empty-'' @ numberToString i,
            issueType = HeadingType, issueSeverity = High,
            issueElement = ''Heading '' @ numberToString (i + 1),
            description = ''Heading is empty'',
            recommendation = ''Add descriptive text to the heading'',
            issueAutoFixable = False\<rparr>]
        else []) (enumerate 0 headings))"

definition checkHeadingStructure :: "string \<Rightarrow> AccessibilityIssue list" where
  "checkHeadingStructure content =
     (let headings = extractHeadings content
      in headingSkipIssues headings @ headingEmptyIssues headings)"

subsection \<open>checkColorContrast\<close>

text \<open>\<^verbatim>\<open>/style="[^"]*color:\s*([^;]+)[^"]*"/gi\<close>\<close>

definition colorAttrRegex :: regex where
  "colorAttrRegex =
     seq [lit ''style='', Lit dq, Star True (Cls True [dq]), lit ''color:'',
          Star True (Cls False whiteSpace), Grp 1 (plus (Cls True '';'')),
          Star True (Cls True [dq]), Lit dq]"

text \<open>The floating-point number that the literal \<^verbatim>\<open>0.3\<close> denotes.\<close>

definition double_0_3 :: rat where
  "double_0_3 = 5404319552844595 / 18014398509481984"

text \<open>
  The loop body on the pair of \<^verbatim>\<open>issues\<close> and the counter \<^verbatim>\<open>index\<close>, which advances only
  when an issue is pushed. A colour that does not parse is skipped by the empty \<^verbatim>\<open>catch\<close>.
\<close>

definition colorContrastStep ::
  "'c ColorLib \<Rightarrow> rmatch_result \<Rightarrow> AccessibilityIssue list \<times> nat
     \<Rightarrow> AccessibilityIssue list \<times> nat" where
  "colorContrastStep cl m st =
     (case parseColor cl (trim (group m 1)) of
        None \<Rightarrow> st
      | Some color \<Rightarrow>
          if luminosity cl color < double_0_3 then
            (fst st @ [\<lparr>issueId = ''contrast-'' @ numberToString (snd st),
                         issueType = ContrastType, issueSeverity = Medium,
                         issueElement = ''Text element'',
                         description = ''Potential color contrast issue detected'',
                         recommendation =
                           ''Verify color contrast meets WCAG AA standards (4.5:1 ratio)'',
                         issueAutoFixable = False\<rparr>],
             snd st + 1)
          else st)"

definition checkColorContrast :: "'c ColorLib \<Rightarrow> string \<Rightarrow> AccessibilityIssue list" where
  "checkColorContrast cl content =
     fst (fold (colorContrastStep cl) (execAll flagsI colorAttrRegex content) ([], 0))"

subsection \<open>convertGeminiAnalysisToIssues\<close>

definition convertGeminiAnalysisToIssues :: "GeminiAnalysis \<Rightarrow> AccessibilityIssue list" where
  "convertGeminiAnalysisToIssues analysis =
     (case analysisIssues analysis of
        Some entries \<Rightarrow>
          map (\<lambda>(i, issue).
                 \<lparr>issueId = ''gemini-'' @ numberToString i,
                  issueType = (case gType issue of Some t \<Rightarrow> t | None \<Rightarrow> SemanticType),
                  issueSeverity = gSeverity issue,
                  issueElement = orElse (gElement issue) ''Content element'',
                  description = orElse (gDescription issue) ''Accessibility issue detected'',
                  recommendation =
                    orElse (gRecommendation issue) ''Review and fix accessibility issue'',
                  issueAutoFixable = (case gAutoFixable issue of Some b \<Rightarrow> b | None \<Rightarrow> False)\<rparr>)
              (enumerate 0 entries)
      | None \<Rightarrow> [])"

text \<open>
  \<^verbatim>\<open>if (geminiAnalysis.success && geminiAnalysis.analysis.issues)
    issues.push(...this.convertGeminiAnalysisToIssues(geminiAnalysis.analysis))\<close>
\<close>

definition geminiIssues :: "GeminiClient \<Rightarrow> string \<Rightarrow> AccessibilityIssue list" where
  "geminiIssues gc content =
     (case analyzeContentAccessibility gc content of
        GeminiSuccess analysis \<Rightarrow>
          (case analysisIssues analysis of
             Some _ \<Rightarrow> convertGeminiAnalysisToIssues analysis
           | None \<Rightarrow> [])
      | GeminiFailure _ \<Rightarrow> [])"

subsection \<open>generateEnhancedSuggestions\<close>

text \<open>
  A \<^verbatim>\<open>Set<string>\<close> is the list of its elements in insertion order; \<^verbatim>\<open>add\<close> leaves the set
  as it is when the element is there. \<^verbatim>\<open>Array.from\<close> returns that list.
\<close>

definition setAdd :: "'a list \<Rightarrow> 'a \<Rightarrow> 'a list" where
  "setAdd s x = (if x \<in> set s then s else s @ [x])"

text \<open>The arrow of the heading suggestion, U+2192, in UTF-8.\<close>

definition arrow :: string where
  "arrow = [CHR 0xE2, CHR 0x86, CHR 0x92]"

definition generateEnhancedSuggestions ::
  "AccessibilityIssue list \<Rightarrow> imageAnalysisEntry list \<Rightarrow> string list" where
  "generateEnhancedSuggestions issues imageAnalyses =
     (let s0 = fold (\<lambda>issue s. setAdd s (recommendation issue)) issues [];
          issueTypes = set (map issueType issues);
          s1 = (if AltTextType \<in> issueTypes then
                  (let s = setAdd s0 (''Use AI-generated alt text as a starting point, ''
                                      @ ''then refine for your specific context'');
                       decorativeImages = filter (\<lambda>e. decorative (snd e)) imageAnalyses
                   in if length decorativeImages > 0 then
                        setAdd s (numberToString (length decorativeImages)
                                  @ '' image(s) appear decorative - consider using empty alt text ''
                                  @ ''(alt='' @ [dq, dq] @ '')'')
                      else s)
                else s0);
          s2 = (if ContrastType \<in> issueTypes then
                  setAdd s1 (''Use a color contrast checker tool to verify all text meets ''
                             @ ''WCAG AA standards'')
                else s1);
          s3 = (if HeadingType \<in> issueTypes then
                  setAdd s2 (''Structure headings hierarchically (H1 '' @ arrow @ '' H2 '' @ arrow
                             @ '' H3) to create a logical document outline'')
                else s2);
          textInImages = filter (\<lambda>e. hasText (accessibility (snd e))) imageAnalyses;
          s4 = (if length textInImages > 0 then
                  setAdd s3 (''Consider replacing text-in-images with actual HTML text ''
                             @ ''for better accessibility'')
                else s3);
          complexImages = filter (\<lambda>e. needsLongDescription (accessibility (snd e))) imageAnalyses;
          s5 = (if length complexImages > 0 then
                  setAdd s4 (''Complex images (charts, diagrams) should include detailed ''
                             @ ''descriptions or data tables'')
                else s4)
      in s5)"

subsection \<open>checkContent\<close>

record Report =
  score :: int
  issues :: "AccessibilityIssue list"
  suggestions :: "string list"
  imageAnalyses :: "imageAnalysisEntry list"

text \<open>
  \<^verbatim>\<open>images\<close> is an optional parameter: \<^verbatim>\<open>images || []\<close> goes to the validator, and the image
  loop runs under \<^verbatim>\<open>if (images)\<close>. The awaits are sequential, so the report is a function of
  the inputs and of what the service answers.
\<close>

definition checkContent ::
  "'c ColorLib \<Rightarrow> GeminiClient \<Rightarrow> string \<Rightarrow> Image list option \<Rightarrow> Report" where
  "checkContent cl gc content images =
     (let wcagResults = validateContent cl content (case images of Some is \<Rightarrow> is | None \<Rightarrow> []);
          issues0 = wcagIssues wcagResults;
          (issues1, analyses) =
             (case images of
                Some is \<Rightarrow> analyzeImages gc content is (issues0, [])
              | None \<Rightarrow> (issues0, []));
          headingIssues = checkHeadingStructure content;
          issues2 = issues1 @ headingIssues;
          contrastIssues = checkColorContrast cl content;
          issues3 = issues2 @ contrastIssues;
          issues4 = issues3 @ geminiIssues gc content;
          score = calculateScore wcagResults;
          suggestions = generateEnhancedSuggestions issues4 analyses
      in \<lparr>score = score, issues = issues4, suggestions = suggestions,
          imageAnalyses = analyses\<rparr>)"

subsection \<open>Awaited calls\<close>

text \<open>
  checkContent awaits every call of the service, one after the other, and neither it nor
  analyzeImage nor the client sets a timer. A call that never settles therefore never lets
  the caller go on: not returning is the value \<open>None\<close>. A provider is a client, which says
  what a call answers once it settles, with the calls that do settle.
\<close>

record Provider =
  client :: GeminiClient
  visionSettles :: "nat \<Rightarrow> string \<Rightarrow> string \<Rightarrow> string \<Rightarrow> bool"
  textSettles :: "string \<Rightarrow> bool"

text \<open>\<^verbatim>\<open>await this.imageAnalyzer.analyzeImage(...)\<close>\<close>

definition analyzeImageAwaited ::
  "Provider \<Rightarrow> nat \<Rightarrow> string \<Rightarrow> string \<Rightarrow> string \<Rightarrow> ImageAnalysis option" where
  "analyzeImageAwaited pv callNo imageData mimeTy ctx =
     (if visionSettles pv callNo ctx imageData mimeTy
      then Some (analyzeImage (client pv) callNo imageData mimeTy ctx)
      else None)"

text \<open>\<^verbatim>\<open>await this.geminiClient.analyzeContentAccessibility(content, [])\<close>\<close>

definition analyzeContentAwaited :: "Provider \<Rightarrow> string \<Rightarrow> GeminiResult option" where
  "analyzeContentAwaited pv content =
     (if textSettles pv content then Some (analyzeContentAccessibility (client pv) content)
      else None)"

text \<open>The body of the image loop, and the loop: they go on only when the awaited call returns.\<close>

definition analyzeImageStepAwaited ::
  "Provider \<Rightarrow> string \<Rightarrow> nat \<Rightarrow> Image
     \<Rightarrow> AccessibilityIssue list \<times> imageAnalysisEntry list
     \<Rightarrow> (AccessibilityIssue list \<times> imageAnalysisEntry list) option" where
  "analyzeImageStepAwaited pv content i img st =
     (case (data img, mimeType img) of
        (Some d, Some mt) \<Rightarrow>
          if d \<noteq> [] \<and> mt \<noteq> [] then
            (case analyzeImageAwaited pv i d mt (extractImageContext content (src img)) of
               None \<Rightarrow> None
             | Some analysis \<Rightarrow>
                 Some (fst st @ analysisIssues_of content i img analysis,
                       snd st @ [(src img, analysis)]))
          else Some st
      | _ \<Rightarrow> Some st)"

fun analyzeImagesAwaited ::
  "Provider \<Rightarrow> string \<Rightarrow> (nat \<times> Image) list
     \<Rightarrow> AccessibilityIssue list \<times> imageAnalysisEntry list
     \<Rightarrow> (AccessibilityIssue list \<times> imageAnalysisEntry list) option" where
  "analyzeImagesAwaited pv content [] st = Some st"
| "analyzeImagesAwaited pv content ((i, img) # rest) st =
     (case analyzeImageStepAwaited pv content i img st of
        None \<Rightarrow> None
      | Some st' \<Rightarrow> analyzeImagesAwaited pv content rest st')"

definition geminiIssuesAwaited :: "Provider \<Rightarrow> string \<Rightarrow> AccessibilityIssue list option" where
  "geminiIssuesAwaited pv content =
     (case analyzeContentAwaited pv content of
        None \<Rightarrow> None
      | Some (GeminiSuccess analysis) \<Rightarrow>
          (case analysisIssues analysis of
             Some _ \<Rightarrow> Some (convertGeminiAnalysisToIssues analysis)
           | None \<Rightarrow> Some [])
      | Some (GeminiFailure _) \<Rightarrow> Some [])"

text \<open>checkContent with its awaits: the report, or \<open>None\<close> when it never returns.\<close>

definition checkContentAwaited ::
  "'c ColorLib \<Rightarrow> Provider \<Rightarrow> string \<Rightarrow> Image list option \<Rightarrow> Report option" where
  "checkContentAwaited cl pv content images =
     (let wcagResults = validateContent cl content (case images of Some is \<Rightarrow> is | None \<Rightarrow> []);
          issues0 = wcagIssues wcagResults
      in case (case images of
                 Some is \<Rightarrow> analyzeImagesAwaited pv content (enumerate 0 is) (issues0, [])
               | None \<Rightarrow> Some (issues0, [])) of
           None \<Rightarrow> None
         | Some (issues1, analyses) \<Rightarrow>
             (let issues2 = issues1 @ checkHeadingStructure content;
                  issues3 = issues2 @ checkColorContrast cl content
              in case geminiIssuesAwaited pv content of
                   None \<Rightarrow> None
                 | Some contentIssues \<Rightarrow>
                     (let issues4 = issues3 @ contentIssues
                      in Some \<lparr>score = calculateScore wcagResults, issues = issues4,
                               suggestions = generateEnhancedSuggestions issues4 analyses,
                               imageAnalyses = analyses\<rparr>)))"

subsection \<open>Notions used to state the properties\<close>

text \<open>The call the image loop awaits for the image at position \<open>i\<close>, if any, settles.\<close>

definition callSettles :: "Provider \<Rightarrow> string \<Rightarrow> nat \<Rightarrow> Image \<Rightarrow> bool" where
  "callSettles pv content i img =
     (case (data img, mimeType img) of
        (Some d, Some mt) \<Rightarrow>
          d = [] \<or> mt = [] \<or> visionSettles pv i (extractImageContext content (src img)) d mt
      | _ \<Rightarrow> True)"

text \<open>Every call checkContent awaits settles: those of the image loop and that for the content.\<close>

definition allCallsSettle :: "Provider \<Rightarrow> string \<Rightarrow> Image list \<Rightarrow> bool" where
  "allCallsSettle pv content images =
     (list_all (\<lambda>(i, img). callSettles pv content i img) (enumerate 0 images)
      \<and> textSettles pv content)"

text \<open>The image list the validator and the image loop work on.\<close>

definition imagesOrEmpty :: "Image list option \<Rightarrow> Image list" where
  "imagesOrEmpty images = (case images of Some is \<Rightarrow> is | None \<Rightarrow> [])"

text \<open>The descriptor carries what the image loop asks for before it calls the service.\<close>

definition hasPayload :: "Image \<Rightarrow> bool" where
  "hasPayload img = (truthy (data img) \<and> truthy (mimeType img))"

text \<open>What the loop body adds for the image at position \<open>i\<close>: its issues and its entries.\<close>

definition imageContribution ::
  "GeminiClient \<Rightarrow> string \<Rightarrow> nat \<Rightarrow> Image \<Rightarrow> AccessibilityIssue list \<times> imageAnalysisEntry list" where
  "imageContribution gc content i img = analyzeImageStep gc content i img ([], [])"

text \<open>The issues the image loop adds, for the whole image list.\<close>

definition aiImageIssues :: "GeminiClient \<Rightarrow> string \<Rightarrow> Image list \<Rightarrow> AccessibilityIssue list" where
  "aiImageIssues gc content images = fst (analyzeImages gc content images ([], []))"

text \<open>A colour library that parses nothing, and a service that rejects every call.\<close>

definition noColors :: "unit ColorLib" where
  "noColors = \<lparr>parseColor = (\<lambda>_. None), contrast = (\<lambda>_ _. 1), luminosity = (\<lambda>_. 0)\<rparr>"

definition offlineClient :: GeminiClient where
  "offlineClient =
     \<lparr>visionModel = (\<lambda>_ _ _ _. Inl TimeoutError),
      textModel = (\<lambda>_. Inl TimeoutError),
      jsonParseAnalysis = (\<lambda>_. None),
      jsonParseContent = (\<lambda>_. None)\<rparr>"

text \<open>The two contents of the examples: \<^verbatim>\<open><img src="a.jpg">\<close> and \<^verbatim>\<open><h1>Title</h1><h3>Sub</h3>\<close>.\<close>

definition imgContent :: string where
  "imgContent = ''<img src='' @ [dq] @ ''a.jpg'' @ [dq] @ ''>''"

definition skipContent :: string where
  "skipContent = ''<h1>Title</h1><h3>Sub</h3>''"

definition bareImage :: Image where
  "bareImage = \<lparr>src = ''a.jpg'', alt = None, data = None, mimeType = None\<rparr>"

text \<open>The same image with data for the service, and a validation result to score.\<close>

definition payloadImage :: Image where
  "payloadImage =
     \<lparr>src = ''a.jpg'', alt = None, data = Some ''AAAA'', mimeType = Some ''image/jpeg''\<rparr>"

definition sampleResult :: "bool \<Rightarrow> Severity \<Rightarrow> ValidationResult" where
  "sampleResult ok sev =
     \<lparr>ruleId = ''1.1.1'', passed = ok, severity = sev, element = None, message = ''m'',
      suggestion = ''s'', autoFixable = False\<rparr>"

text \<open>
  Two replies of the service, with the objects \<^verbatim>\<open>JSON.parse\<close> returns for them: an image
  reply \<^verbatim>\<open>{"altText":"Sales chart","accessibility":{"hasText":true,"needsLongDescription":true}}\<close>
  and a content reply
  \<^verbatim>\<open>{"issues":[{"type":"heading","severity":"low","description":"Headings are vague"}]}\<close>.
\<close>

definition quoted :: "string \<Rightarrow> string" where
  "quoted s = dq # s @ [dq]"

definition sampleImageReply :: string where
  "sampleImageReply =
     ''{'' @ quoted ''altText'' @ '':'' @ quoted ''Sales chart'' @ '','' @ quoted ''accessibility''
     @ '':{'' @ quoted ''hasText'' @ '':true,'' @ quoted ''needsLongDescription'' @ '':true}}''"

definition sampleParsed :: ParsedAnalysis where
  "sampleParsed =
     \<lparr>pAltText = Some ''Sales chart'', pConfidence = None, pDescription = None, pContext = None,
      pDecorative = None, pTextContent = None,
      pAccessibility = Some \<lparr>hasText = True, isComplex = False, needsLongDescription = True,
                              suggestedLongDescription = None\<rparr>\<rparr>"

definition sampleContentReply :: string where
  "sampleContentReply =
     ''{'' @ quoted ''issues'' @ '':[{'' @ quoted ''type'' @ '':'' @ quoted ''heading'' @ '',''
     @ quoted ''severity'' @ '':'' @ quoted ''low'' @ '','' @ quoted ''description'' @ '':''
     @ quoted ''Headings are vague'' @ ''}]}''"

definition sampleEntry :: GeminiIssue where
  "sampleEntry =
     \<lparr>gType = Some HeadingType, gSeverity = Low, gElement = None,
      gDescription = Some ''Headings are vague'', gRecommendation = None, gAutoFixable = None\<rparr>"

text \<open>
  A service that rejects the call for the image at position 1, answers every other image
  call with the image reply and the content call with the content reply.
\<close>

definition scriptedClient :: GeminiClient where
  "scriptedClient =
     \<lparr>visionModel = (\<lambda>callNo ctx d mt.
                       if callNo = 1 then Inl (ApiError ''quota'') else Inr sampleImageReply),
      textModel = (\<lambda>content. Inr sampleContentReply),
      jsonParseAnalysis = (\<lambda>s. if s = sampleImageReply then Some sampleParsed else None),
      jsonParseContent =
        (\<lambda>s. if s = sampleContentReply then Some \<lparr>analysisIssues = Some [sampleEntry]\<rparr>
              else None)\<rparr>"

text \<open>The scripted service with every image call answered.\<close>

definition answeringClient :: GeminiClient where
  "answeringClient = scriptedClient\<lparr>visionModel := (\<lambda>callNo ctx d mt. Inr sampleImageReply)\<rparr>"

text \<open>
  The scripted service with every call settling, and the same service where the call for the
  image at position 1 never settles.
\<close>

definition scriptedProvider :: Provider where
  "scriptedProvider =
     \<lparr>client = scriptedClient, visionSettles = (\<lambda>callNo ctx d mt. True),
      textSettles = (\<lambda>content. True)\<rparr>"

definition stalledProvider :: Provider where
  "stalledProvider =
     \<lparr>client = scriptedClient, visionSettles = (\<lambda>callNo ctx d mt. callNo \<noteq> 1),
      textSettles = (\<lambda>content. True)\<rparr>"

text \<open>Four images for the alt checks, and an issue with a given recommendation.\<close>

definition blankAltImage :: Image where
  "blankAltImage =
     \<lparr>src = ''b.png'', alt = Some (replicate 130 CHR '' ''), data = None, mimeType = None\<rparr>"

definition longAltImage :: Image where
  "longAltImage =
     \<lparr>src = ''c.png'', alt = Some (''image '' @ replicate 130 CHR ''x''), data = None,
      mimeType = None\<rparr>"

definition logoImage :: Image where
  "logoImage = \<lparr>src = ''d.png'', alt = Some ''Company Logo'', data = None, mimeType = None\<rparr>"

definition describedImage :: Image where
  "describedImage =
     \<lparr>src = ''e.png'', alt = Some ''A red bicycle'', data = Some ''BBBB'',
      mimeType = Some ''image/png''\<rparr>"

definition sampleIssue :: "string \<Rightarrow> IssueType \<Rightarrow> string \<Rightarrow> AccessibilityIssue" where
  "sampleIssue name ty rec =
     \<lparr>issueId = name, issueType = ty, issueSeverity = Medium, issueElement = ''Content element'',
      description = ''d'', recommendation = rec, issueAutoFixable = False\<rparr>"

text \<open>The \<^verbatim>\<open>element\<close> string validateImage builds for the image at position \<open>i\<close>.\<close>

definition imageElement :: "nat \<Rightarrow> Image \<Rightarrow> string" where
  "imageElement i img = ''Image '' @ numberToString (i + 1) @ '' ('' @ src img @ '')''"

text \<open>A list without its repeated elements, each kept where it first occurs.\<close>

definition firstOccurrences :: "'a list \<Rightarrow> 'a list" where
  "firstOccurrences xs = rev (remdups (rev xs))"

text \<open>The first test of validateImage: the alt is missing, empty or white space only.\<close>

definition altMissing :: "Image \<Rightarrow> bool" where
  "altMissing img = (case alt img of None \<Rightarrow> True | Some a \<Rightarrow> a = [] \<or> trim a = [])"

section \<open>Scoring\<close>

lemma fold_weights_acc:
  "fold (\<lambda>result sum. sum + weights (severity result)) rs a
     = a + sum_list (map (\<lambda>r. weights (severity r)) rs)"
  by (induction rs arbitrary: a) simp_all

lemma totalDeduction_sum:
  "totalDeduction rs = (\<Sum>r \<leftarrow> filter (\<lambda>r. \<not> passed r) rs. weights (severity r))"
  by (simp add: totalDeduction_def fold_weights_acc)

lemma totalDeduction_nonneg: "0 \<le> totalDeduction rs"
proof -
  have "0 \<le> weights s" for s by (cases s) simp_all
  then show ?thesis
    unfolding totalDeduction_sum by (intro sum_list_nonneg) auto
qed

section \<open>The scanning loops advance\<close>

lemma matchLiteral_length: "matchLiteral fl t s = Some s' \<Longrightarrow> length s' \<le> length s"
  by (induction fl t s rule: matchLiteral.induct) (auto split: if_splits)

lemma rmatch_length:
  "st' \<in> set (rmatch fl r st)
     \<Longrightarrow> length (fst st') \<le> length (fst st)
         \<and> (\<not> nullable r \<longrightarrow> length (fst st') < length (fst st))"
proof (induction fl r st arbitrary: st' rule: rmatch.induct)
  case (1 fl p st)
  then show ?case by (cases st) (auto split: list.splits if_splits)
next
  case (2 fl st)
  then show ?case by (cases st) (auto split: list.splits if_splits)
next
  case (3 fl negated members st)
  then show ?case by (cases st) (auto split: list.splits if_splits)
next
  case (4 fl st)
  then show ?case by simp
next
  case (5 fl a b st)
  from "5.prems" obtain mid where m: "mid \<in> set (rmatch fl a st)" "st' \<in> set (rmatch fl b mid)"
    by auto
  from "5.IH"(1) [OF m(1)] "5.IH"(2) [OF m(1) m(2)] show ?case by auto
next
  case (6 fl a b st)
  from "6.prems" have "st' \<in> set (rmatch fl a st) \<or> st' \<in> set (rmatch fl b st)"
    by simp
  then show ?case
  proof
    assume "st' \<in> set (rmatch fl a st)"
    from "6.IH"(1) [OF this] show ?thesis by simp
  next
    assume "st' \<in> set (rmatch fl b st)"
    from "6.IH"(2) [OF this] show ?thesis by simp
  qed
next
  case (7 fl greedy r st)
  have eq: "rmatch fl (Star greedy r) st =
     (let more = concat (map (\<lambda>st'. if length (fst st') < length (fst st)
                                      then rmatch fl (Star greedy r) st' else [])
                             (rmatch fl r st))
      in if greedy then more @ [st] else st # more)"
    by (rule rmatch.simps)
  have "st' = st \<or> (\<exists>mid \<in> set (rmatch fl r st). length (fst mid) < length (fst st)
                       \<and> st' \<in> set (rmatch fl (Star greedy r) mid))"
    using "7.prems" unfolding eq
    by (auto simp del: rmatch.simps simp: Let_def split: if_splits)
  then show ?case
  proof
    assume "st' = st"
    then show ?thesis by simp
  next
    assume "\<exists>mid \<in> set (rmatch fl r st). length (fst mid) < length (fst st)
                       \<and> st' \<in> set (rmatch fl (Star greedy r) mid)"
    then obtain mid where m: "mid \<in> set (rmatch fl r st)" "length (fst mid) < length (fst st)"
        "st' \<in> set (rmatch fl (Star greedy r) mid)" by blast
    from "7.IH"(2) [OF m(1) m(2) m(3)] m(2) show ?thesis by simp
  qed
next
  case (8 fl n r st)
  from "8.prems" have "st' \<in> (\<lambda>mid. (fst mid, (n, take (length (fst st) - length (fst mid)) (fst st)) # snd mid)) ` set (rmatch fl r st)"
    by simp
  then obtain mid where m: "mid \<in> set (rmatch fl r st)" "fst st' = fst mid"
    by force
  from "8.IH" [OF m(1)] m(2) show ?case by simp
next
  case (9 fl n st)
  then show ?case
    by (cases st) (auto split: option.splits dest: matchLiteral_length [OF sym])
qed

lemma searchFrom_length:
  "searchFrom fl r i s = Some m
     \<Longrightarrow> length (remainder m) \<le> length s
         \<and> (\<not> nullable r \<longrightarrow> length (remainder m) < length s)"
proof (induction s arbitrary: i)
  case Nil
  then show ?case
    using rmatch_length [of "(remainder m, groups m)" fl r "([], [])"]
    by (subst (asm) searchFrom.simps) (auto split: list.splits)
next
  case (Cons c cs)
  show ?case
  proof (cases "rmatch fl r (c # cs, [])")
    case Nil
    then have "searchFrom fl r (Suc i) cs = Some m"
      using Cons.prems by (subst (asm) searchFrom.simps) simp
    from Cons.IH [OF this] show ?thesis by auto
  next
    case (Cons st' rest)
    then have "st' \<in> set (rmatch fl r (c # cs, []))" by simp
    from rmatch_length [OF this] Cons Cons.prems show ?thesis
      by (subst (asm) searchFrom.simps) (auto split: prod.splits)
  qed
qed

lemma execAll_advances:
  assumes "\<not> nullable r"
  shows "execAll fl r s
           = (case search fl r s of None \<Rightarrow> [] | Some m \<Rightarrow> m # execAll fl r (remainder m))"
proof (cases "search fl r s")
  case None
  then show ?thesis by (subst execAll.simps) simp
next
  case (Some m)
  then have "length (remainder m) < length s"
    using searchFrom_length [of fl r 0 s m] assms by (simp add: search_def)
  then show ?thesis
    using Some by (subst execAll.simps) simp
qed

lemma replaceAll_advances:
  assumes "\<not> nullable r"
  shows "replaceAll fl r rep s
           = (case search fl r s of None \<Rightarrow> s
              | Some m \<Rightarrow> take (index m) s @ rep @ replaceAll fl r rep (remainder m))"
proof (cases "search fl r s")
  case None
  then show ?thesis by (subst replaceAll.simps) simp
next
  case (Some m)
  then have "length (remainder m) < length s"
    using searchFrom_length [of fl r 0 s m] assms by (simp add: search_def)
  then show ?thesis
    using Some by (subst replaceAll.simps) simp
qed

lemma loop_patterns_consume:
  "\<not> nullable tagRegex" "\<not> nullable headingRegex" "\<not> nullable styleRegex"
  "\<not> nullable listRegex" "\<not> nullable liRegex" "\<not> nullable tableRegex"
  "\<not> nullable interactiveRegex" "\<not> nullable ariaRegex" "\<not> nullable colorAttrRegex"
  "\<not> nullable quoteRegex"
  by (simp_all add: tagRegex_def headingRegex_def styleRegex_def listRegex_def liRegex_def
        tableRegex_def interactiveRegex_def ariaRegex_def colorAttrRegex_def quoteRegex_def
        seq_def lit_def plus_def)

section \<open>The structure of a report\<close>

lemma analyzeImageStep_acc:
  "analyzeImageStep gc content i img st
     = (fst st @ fst (imageContribution gc content i img),
        snd st @ snd (imageContribution gc content i img))"
  by (cases st)
     (simp add: imageContribution_def analyzeImageStep_def Let_def split: option.splits)

lemma analyzeImages_fold_acc:
  "fold (\<lambda>(i, img) st. analyzeImageStep gc content i img st) (enumerate n imgs) st
     = (fst st @ concat (map (\<lambda>(i, img). fst (imageContribution gc content i img))
                             (enumerate n imgs)),
        snd st @ concat (map (\<lambda>(i, img). snd (imageContribution gc content i img))
                             (enumerate n imgs)))"
proof (induction imgs arbitrary: n st)
  case Nil
  then show ?case by simp
next
  case (Cons img imgs)
  show ?case
    using analyzeImageStep_acc [of gc content n img st] by (simp add: Cons.IH)
qed

lemma analyzeImages_eq:
  "analyzeImages gc content imgs st
     = (fst st @ concat (map (\<lambda>(i, img). fst (imageContribution gc content i img))
                             (enumerate 0 imgs)),
        snd st @ concat (map (\<lambda>(i, img). snd (imageContribution gc content i img))
                             (enumerate 0 imgs)))"
  by (simp add: analyzeImages_def analyzeImages_fold_acc)

lemma aiImageIssues_eq:
  "aiImageIssues gc content imgs
     = concat (map (\<lambda>(i, img). fst (imageContribution gc content i img)) (enumerate 0 imgs))"
  by (simp add: aiImageIssues_def analyzeImages_eq)

lemma checkContent_loop:
  "(case images of Some is \<Rightarrow> analyzeImages gc content is st | None \<Rightarrow> st)
     = analyzeImages gc content (imagesOrEmpty images) st"
  by (cases images) (simp_all add: imagesOrEmpty_def analyzeImages_def)

lemma checkContent_score:
  "score (checkContent cl gc content images)
     = calculateScore (validateContent cl content (imagesOrEmpty images))"
  by (simp add: checkContent_def Let_def imagesOrEmpty_def split: prod.splits)

lemma checkContent_issues:
  "issues (checkContent cl gc content images)
     = wcagIssues (validateContent cl content (imagesOrEmpty images))
       @ aiImageIssues gc content (imagesOrEmpty images)
       @ checkHeadingStructure content
       @ checkColorContrast cl content
       @ geminiIssues gc content"
  unfolding checkContent_def Let_def checkContent_loop
  by (simp add: analyzeImages_eq aiImageIssues_eq imagesOrEmpty_def split: prod.splits)

lemma checkContent_imageAnalyses:
  "imageAnalyses (checkContent cl gc content images)
     = concat (map (\<lambda>(i, img). snd (imageContribution gc content i img))
                   (enumerate 0 (imagesOrEmpty images)))"
  unfolding checkContent_def Let_def checkContent_loop
  by (simp add: analyzeImages_eq split: prod.splits)

lemma checkContent_suggestions:
  "suggestions (checkContent cl gc content images)
     = generateEnhancedSuggestions (issues (checkContent cl gc content images))
         (imageAnalyses (checkContent cl gc content images))"
  by (simp add: checkContent_def Let_def split: prod.splits)

lemma wcagIssues_enumerate:
  "map f (concat (map (\<lambda>(i, result). if \<not> passed result then [wcagIssue i result] else [])
                      (enumerate n rs)))
     = map (\<lambda>(i, result). f (wcagIssue i result))
           (filter (\<lambda>(i, result). \<not> passed result) (enumerate n rs))"
  by (induction rs arbitrary: n) simp_all

lemma filter_enumerate_snd:
  "map snd (filter (\<lambda>(i, x). P x) (enumerate n xs)) = filter P xs"
  by (induction xs arbitrary: n) simp_all

lemma wcagIssues_severity:
  "map issueSeverity (wcagIssues rs) = map severity (filter (\<lambda>r. \<not> passed r) rs)"
proof -
  have "map issueSeverity (wcagIssues rs)
          = map (severity \<circ> snd) (filter (\<lambda>(i, result). \<not> passed result) (enumerate 0 rs))"
    unfolding wcagIssues_def wcagIssues_enumerate
    by (simp add: wcagIssue_def case_prod_unfold comp_def)
  also have "\<dots> = map severity (map snd (filter (\<lambda>(i, result). \<not> passed result) (enumerate 0 rs)))"
    by simp
  finally show ?thesis
    by (simp only: filter_enumerate_snd)
qed

lemma wcagIssues_description:
  "map description (wcagIssues rs) = map message (filter (\<lambda>r. \<not> passed r) rs)"
proof -
  have "map description (wcagIssues rs)
          = map (message \<circ> snd) (filter (\<lambda>(i, result). \<not> passed result) (enumerate 0 rs))"
    unfolding wcagIssues_def wcagIssues_enumerate
    by (simp add: wcagIssue_def case_prod_unfold comp_def)
  also have "\<dots> = map message (map snd (filter (\<lambda>(i, result). \<not> passed result) (enumerate 0 rs)))"
    by simp
  finally show ?thesis
    by (simp only: filter_enumerate_snd)
qed

section \<open>Properties of the score\<close>

text \<open>
  C1. calculateScore returns max(0, 100 minus the summed weights of exactly the
  results with passed = false), with weights high 15, medium 10, low 5. When no result failed
  the score is 100; when the only failure is of high severity it is 85; when the failures are
  two of high and one of medium severity (in any order, among any passed results) it is 60.
\<close>

theorem calculateScore_formula:
  "calculateScore rs
     = max 0 (100 - (\<Sum>r \<leftarrow> filter (\<lambda>r. \<not> passed r) rs. weights (severity r)))
   \<and> weights High = 15 \<and> weights Medium = 10 \<and> weights Low = 5
   \<and> (filter (\<lambda>r. \<not> passed r) rs = [] \<longrightarrow> calculateScore rs = 100)
   \<and> (map severity (filter (\<lambda>r. \<not> passed r) rs) = [High] \<longrightarrow> calculateScore rs = 85)
   \<and> (map severity (filter (\<lambda>r. \<not> passed r) rs) \<in> {[High, High, Medium], [High, Medium, High],
          [Medium, High, High]} \<longrightarrow> calculateScore rs = 60)"
proof -
  have f: "calculateScore rs
     = max 0 (100 - sum_list (map weights (map severity (filter (\<lambda>r. \<not> passed r) rs))))"
    by (simp add: calculateScore_def totalDeduction_sum comp_def)
  show ?thesis
    unfolding f by (auto simp: comp_def)
qed

theorem calculateScore_formula_witness:
  "filter (\<lambda>r. \<not> passed r) [sampleResult True Low] = []
   \<and> calculateScore [sampleResult True Low] = 100
   \<and> map severity (filter (\<lambda>r. \<not> passed r) [sampleResult True Low, sampleResult False High])
       = [High]
   \<and> calculateScore [sampleResult True Low, sampleResult False High] = 85
   \<and> map severity (filter (\<lambda>r. \<not> passed r)
        [sampleResult False High, sampleResult True High, sampleResult False Medium,
         sampleResult False High]) = [High, Medium, High]
   \<and> calculateScore [sampleResult False High, sampleResult True High, sampleResult False Medium,
         sampleResult False High] = 60"
  using calculateScore_formula [of "[sampleResult True Low]"]
    calculateScore_formula [of "[sampleResult True Low, sampleResult False High]"]
    calculateScore_formula [of "[sampleResult False High, sampleResult True High,
      sampleResult False Medium, sampleResult False High]"]
  by (simp add: sampleResult_def)

text \<open>
  C2. Whatever the content, the image list, the colour library and the answers of the
  service, the score of the report that checkContent returns is an integer from 0 to 100.
\<close>

theorem checkContent_score_bounds:
  "0 \<le> score (checkContent cl gc content images)
   \<and> score (checkContent cl gc content images) \<le> 100"
proof -
  have "0 \<le> totalDeduction (validateContent cl content (imagesOrEmpty images))"
    by (rule totalDeduction_nonneg)
  then show ?thesis
    by (simp add: checkContent_score calculateScore_def)
qed

theorem checkContent_score_bounds_witness:
  "0 \<le> score (checkContent noColors scriptedClient imgContent (Some [payloadImage]))
   \<and> score (checkContent noColors scriptedClient imgContent (Some [payloadImage])) \<le> 100"
  using checkContent_score_bounds [of noColors scriptedClient imgContent "Some [payloadImage]"]
  by simp

text \<open>
  C3, as the claim states it, fails: for the content \<^verbatim>\<open><img src="a.jpg">\<close> and one image
  without alt whose analysis is rejected, the merged list holds three issues of high severity
  (two from the rules and the one the image loop derives from the placeholder analysis), yet
  the score is 70, not 100 minus the weights of the merged list.
\<close>

theorem score_of_merged_list_counterexample:
  "map issueId (issues (checkContent noColors offlineClient imgContent (Some [payloadImage])))
     = [''wcag-1.1.1-0'', ''wcag-2.4.6-1'', ''ai-alt-text-0'']
   \<and> map issueSeverity (issues (checkContent noColors offlineClient imgContent (Some [payloadImage])))
     = [High, High, High]
   \<and> score (checkContent noColors offlineClient imgContent (Some [payloadImage])) = 70
   \<and> score (checkContent noColors offlineClient imgContent (Some [payloadImage]))
     \<noteq> max 0 (100 - (\<Sum>i \<leftarrow> issues (checkContent noColors offlineClient imgContent
                                      (Some [payloadImage])). weights (issueSeverity i)))"
  by code_simp

text \<open>
  C3, amended. The score of the report is calculateScore of the validator's results: 100
  minus the weights of the rule issues, which are the first segment of the merged list, and
  never below 0. What the image loop, checkHeadingStructure, checkColorContrast and the
  content analysis add to the list does not reach the score, so the score is the same whatever
  the service answers.
\<close>

theorem score_from_rule_results:
  "score (checkContent cl gc content images)
     = calculateScore (validateContent cl content (imagesOrEmpty images))
   \<and> score (checkContent cl gc content images)
     = max 0 (100 - (\<Sum>i \<leftarrow> wcagIssues (validateContent cl content (imagesOrEmpty images)).
                        weights (issueSeverity i)))
   \<and> score (checkContent cl gc content images) = score (checkContent cl gc' content images)"
proof -
  let ?rs = "validateContent cl content (imagesOrEmpty images)"
  have "(\<Sum>i \<leftarrow> wcagIssues ?rs. weights (issueSeverity i))
          = sum_list (map weights (map issueSeverity (wcagIssues ?rs)))"
    by (simp add: comp_def)
  also have "\<dots> = totalDeduction ?rs"
    by (simp add: wcagIssues_severity totalDeduction_sum comp_def)
  finally show ?thesis
    by (simp add: checkContent_score calculateScore_def)
qed

theorem score_from_rule_results_witness:
  "score (checkContent noColors scriptedClient imgContent (Some [payloadImage])) = 70
   \<and> score (checkContent noColors scriptedClient imgContent (Some [payloadImage]))
     = score (checkContent noColors offlineClient imgContent (Some [payloadImage]))"
proof -
  have "calculateScore (validateContent noColors imgContent (imagesOrEmpty (Some [payloadImage])))
          = 70"
    by code_simp
  then show ?thesis
    using score_from_rule_results [of noColors scriptedClient imgContent "Some [payloadImage]"
        offlineClient]
    by simp
qed

section \<open>The order of the issues\<close>

lemma map_snd_enumerate_case:
  "map (\<lambda>(i, x). f x) (enumerate n xs) = map f xs"
  by (induction xs arbitrary: n) simp_all

lemma map_fst_enumerate_case:
  "map (\<lambda>(i, x). g i) (enumerate n xs) = map g [n ..< n + length xs]"
proof (induction xs arbitrary: n)
  case Nil
  then show ?case by simp
next
  case (Cons x xs)
  have "[n ..< n + length (x # xs)] = n # [Suc n ..< Suc n + length xs]"
    by (simp add: upt_rec)
  then show ?case
    using Cons.IH [of "Suc n"] by simp
qed

lemma geminiIssues_order:
  assumes "analyzeContentAccessibility gc content = GeminiSuccess a" "analysisIssues a = Some es"
  shows "map issueSeverity (geminiIssues gc content) = map gSeverity es"
    and "map issueId (geminiIssues gc content)
           = map (\<lambda>i. ''gemini-'' @ numberToString i) [0 ..< length es]"
proof -
  have g: "geminiIssues gc content = convertGeminiAnalysisToIssues a"
    using assms by (simp add: geminiIssues_def)
  have "map issueSeverity (convertGeminiAnalysisToIssues a)
          = map (\<lambda>(i, issue). gSeverity issue) (enumerate 0 es)"
    using assms(2) by (simp add: convertGeminiAnalysisToIssues_def case_prod_unfold comp_def)
  then show "map issueSeverity (geminiIssues gc content) = map gSeverity es"
    unfolding g by (simp only: map_snd_enumerate_case)
  have "map issueId (convertGeminiAnalysisToIssues a)
          = map (\<lambda>(i, issue). ''gemini-'' @ numberToString i) (enumerate 0 es)"
    using assms(2) by (simp add: convertGeminiAnalysisToIssues_def case_prod_unfold comp_def)
  then show "map issueId (geminiIssues gc content)
           = map (\<lambda>i. ''gemini-'' @ numberToString i) [0 ..< length es]"
    unfolding g by (simp only: map_fst_enumerate_case) simp
qed

text \<open>
  C4, as the claim states it, fails: for the content \<^verbatim>\<open><h1>Title</h1><h3>Sub</h3>\<close> and one
  image without alt whose analysis is rejected, the issue the image loop derives comes third
  and is followed by the heading issue of checkHeadingStructure, so the list is not the rule
  issues, then the per-image issues, then the content issues.
\<close>

theorem issues_three_segments_counterexample:
  "map issueId (issues (checkContent noColors offlineClient skipContent (Some [payloadImage])))
     = [''wcag-1.1.1-0'', ''wcag-1.3.1-1'', ''ai-alt-text-0'', ''heading-skip-1'']
   \<and> issues (checkContent noColors offlineClient skipContent (Some [payloadImage]))
     \<noteq> wcagIssues (validateContent noColors skipContent [payloadImage])
        @ aiImageIssues offlineClient skipContent [payloadImage]
        @ geminiIssues offlineClient skipContent"
  by code_simp

text \<open>
  C4, amended. The issues of the report are five segments in this order: the issues of the
  validator's results (images, headings, contrast, semantic structure, ARIA, in that order),
  the issues of the image loop (image by image, in the order of the image list), the issues of
  checkHeadingStructure, the issues of checkColorContrast, and the issues of the content
  analysis (in the order of the entries the service returned, numbered from 0). The list is a
  function of the inputs and of the answers of the service alone.
\<close>

theorem issues_in_five_segments:
  "issues (checkContent cl gc content images)
     = wcagIssues (validateContent cl content (imagesOrEmpty images))
       @ aiImageIssues gc content (imagesOrEmpty images)
       @ checkHeadingStructure content
       @ checkColorContrast cl content
       @ geminiIssues gc content
   \<and> map description (wcagIssues (validateContent cl content (imagesOrEmpty images)))
     = map message (filter (\<lambda>r. \<not> passed r)
         (validateImages (imagesOrEmpty images) @ validateHeadings content
          @ validateColorContrast cl content @ validateSemanticStructure content
          @ validateARIA content))
   \<and> aiImageIssues gc content (imagesOrEmpty images)
     = concat (map (\<lambda>(i, img). fst (imageContribution gc content i img))
                   (enumerate 0 (imagesOrEmpty images)))
   \<and> (\<forall>a es. analyzeContentAccessibility gc content = GeminiSuccess a \<and> analysisIssues a = Some es
        \<longrightarrow> map issueSeverity (geminiIssues gc content) = map gSeverity es
          \<and> map issueId (geminiIssues gc content)
              = map (\<lambda>i. ''gemini-'' @ numberToString i) [0 ..< length es])"
  using checkContent_issues [of cl gc content images]
    wcagIssues_description [of "validateContent cl content (imagesOrEmpty images)"]
    aiImageIssues_eq [of gc content "imagesOrEmpty images"]
    geminiIssues_order [of gc content]
  by (simp add: validateContent_def)

theorem issues_in_five_segments_witness:
  "analyzeContentAccessibility scriptedClient skipContent
     = GeminiSuccess \<lparr>analysisIssues = Some [sampleEntry]\<rparr>
   \<and> map issueSeverity (geminiIssues scriptedClient skipContent) = [Low]
   \<and> map issueId (issues (checkContent noColors scriptedClient skipContent (Some [payloadImage])))
     = [''wcag-1.1.1-0'', ''wcag-1.3.1-1'', ''ai-alt-text-0'', ''text-in-image-0'',
        ''complex-image-0'', ''heading-skip-1'', ''gemini-0'']"
proof -
  have h: "analyzeContentAccessibility scriptedClient skipContent
             = GeminiSuccess \<lparr>analysisIssues = Some [sampleEntry]\<rparr>"
    by code_simp
  have s: "map issueSeverity (geminiIssues scriptedClient skipContent) = map gSeverity [sampleEntry]"
    using issues_in_five_segments [of noColors scriptedClient skipContent "Some [payloadImage]"] h
    by simp
  have e: "issues (checkContent noColors scriptedClient skipContent (Some [payloadImage]))
     = wcagIssues (validateContent noColors skipContent (imagesOrEmpty (Some [payloadImage])))
       @ aiImageIssues scriptedClient skipContent (imagesOrEmpty (Some [payloadImage]))
       @ checkHeadingStructure skipContent
       @ checkColorContrast noColors skipContent
       @ geminiIssues scriptedClient skipContent"
    using issues_in_five_segments [of noColors scriptedClient skipContent "Some [payloadImage]"]
    by blast
  have v: "map issueId (wcagIssues (validateContent noColors skipContent (imagesOrEmpty (Some [payloadImage])))
       @ aiImageIssues scriptedClient skipContent (imagesOrEmpty (Some [payloadImage]))
       @ checkHeadingStructure skipContent
       @ checkColorContrast noColors skipContent
       @ geminiIssues scriptedClient skipContent)
     = [''wcag-1.1.1-0'', ''wcag-1.3.1-1'', ''ai-alt-text-0'', ''text-in-image-0'',
        ''complex-image-0'', ''heading-skip-1'', ''gemini-0'']"
    by code_simp
  show ?thesis
    using h s v unfolding e by (simp add: sampleEntry_def)
qed

section \<open>The suggestions\<close>

lemma setAdd_firstOccurrences:
  "setAdd (firstOccurrences xs) x = firstOccurrences (xs @ [x])"
  by (simp add: setAdd_def firstOccurrences_def)

lemma fold_setAdd_firstOccurrences:
  "fold (\<lambda>y s. setAdd s (f y)) ys (firstOccurrences xs) = firstOccurrences (xs @ map f ys)"
proof (induction ys arbitrary: xs)
  case Nil
  then show ?case by simp
next
  case (Cons y ys)
  have "fold (\<lambda>y s. setAdd s (f y)) (y # ys) (firstOccurrences xs)
          = fold (\<lambda>y s. setAdd s (f y)) ys (firstOccurrences (xs @ [f y]))"
    by (simp add: setAdd_firstOccurrences)
  also have "\<dots> = firstOccurrences ((xs @ [f y]) @ map f ys)"
    by (rule Cons.IH)
  finally show ?case by simp
qed

lemma inserted_base: "\<exists>extras. firstOccurrences base = firstOccurrences (base @ extras)"
  by (rule exI [of _ "[]"]) simp

lemma inserted_setAdd:
  assumes "\<exists>extras. s = firstOccurrences (base @ extras)"
  shows "\<exists>extras. setAdd s x = firstOccurrences (base @ extras)"
proof -
  from assms obtain extras where "s = firstOccurrences (base @ extras)" by blast
  then have "setAdd s x = firstOccurrences (base @ (extras @ [x]))"
    by (simp add: setAdd_firstOccurrences)
  then show ?thesis by blast
qed

lemma inserted_if:
  assumes "\<exists>extras. a = firstOccurrences (base @ extras)"
    and "\<exists>extras. b = firstOccurrences (base @ extras)"
  shows "\<exists>extras. (if c then a else b) = firstOccurrences (base @ extras)"
  using assms by simp

lemma generateEnhancedSuggestions_inserted:
  "\<exists>extras. generateEnhancedSuggestions iss analyses
              = firstOccurrences (map recommendation iss @ extras)"
proof -
  have s0: "fold (\<lambda>issue s. setAdd s (recommendation issue)) iss []
              = firstOccurrences (map recommendation iss)"
    using fold_setAdd_firstOccurrences [of recommendation iss "[]"]
    by (simp add: firstOccurrences_def)
  show ?thesis
    unfolding generateEnhancedSuggestions_def Let_def s0
    by (intro inserted_if inserted_setAdd inserted_base)
qed

lemma firstOccurrences_distinct: "distinct (firstOccurrences xs)"
  by (simp add: firstOccurrences_def)

lemma firstOccurrences_set: "set (firstOccurrences xs) = set xs"
  by (simp add: firstOccurrences_def)

lemma firstOccurrences_append:
  "firstOccurrences (xs @ ys) = firstOccurrences xs @ filter (\<lambda>y. y \<notin> set xs) (firstOccurrences ys)"
proof (induction ys rule: rev_induct)
  case Nil
  then show ?case by (simp add: firstOccurrences_def)
next
  case (snoc y ys)
  have "firstOccurrences (xs @ ys @ [y]) = setAdd (firstOccurrences (xs @ ys)) y"
    using setAdd_firstOccurrences [of "xs @ ys" y] by simp
  moreover have "firstOccurrences (ys @ [y]) = setAdd (firstOccurrences ys) y"
    by (simp add: setAdd_firstOccurrences)
  ultimately show ?case
    using snoc.IH by (auto simp: setAdd_def firstOccurrences_set)
qed

text \<open>
  C8. The suggestions hold the recommendation of every issue, hold no string twice, and are
  in the order of first insertion: they are the list of first occurrences of the
  recommendations, in the order of the issues, followed by the further strings the generator
  adds, each where it was first inserted.
\<close>

theorem suggestions_deduplicated:
  "(\<forall>issue \<in> set iss.
      recommendation issue \<in> set (generateEnhancedSuggestions iss analyses))
   \<and> distinct (generateEnhancedSuggestions iss analyses)
   \<and> (\<exists>extras. generateEnhancedSuggestions iss analyses
                  = firstOccurrences (map recommendation iss @ extras))
   \<and> prefix (firstOccurrences (map recommendation iss))
            (generateEnhancedSuggestions iss analyses)"
proof -
  obtain extras where e: "generateEnhancedSuggestions iss analyses
      = firstOccurrences (map recommendation iss @ extras)"
    using generateEnhancedSuggestions_inserted [of iss analyses] by blast
  have "prefix (firstOccurrences (map recommendation iss))
          (firstOccurrences (map recommendation iss @ extras))"
    by (simp add: firstOccurrences_append)
  then show ?thesis
    unfolding e by (auto simp: firstOccurrences_distinct firstOccurrences_set)
qed

theorem suggestions_deduplicated_witness:
  "recommendation (sampleIssue ''a'' AltTextType ''Fix it'')
     \<in> set (generateEnhancedSuggestions
          [sampleIssue ''a'' AltTextType ''Fix it'', sampleIssue ''b'' HeadingType ''Reword'',
           sampleIssue ''c'' AltTextType ''Fix it''] [])
   \<and> distinct (generateEnhancedSuggestions
          [sampleIssue ''a'' AltTextType ''Fix it'', sampleIssue ''b'' HeadingType ''Reword'',
           sampleIssue ''c'' AltTextType ''Fix it''] [])
   \<and> take 2 (generateEnhancedSuggestions
          [sampleIssue ''a'' AltTextType ''Fix it'', sampleIssue ''b'' HeadingType ''Reword'',
           sampleIssue ''c'' AltTextType ''Fix it''] []) = [''Fix it'', ''Reword'']"
proof -
  let ?iss = "[sampleIssue ''a'' AltTextType ''Fix it'', sampleIssue ''b'' HeadingType ''Reword'',
           sampleIssue ''c'' AltTextType ''Fix it'']"
  have m: "sampleIssue ''a'' AltTextType ''Fix it'' \<in> set ?iss" by simp
  have f: "firstOccurrences (map recommendation ?iss) = [''Fix it'', ''Reword'']"
    by code_simp
  have p: "prefix [''Fix it'', ''Reword''] (generateEnhancedSuggestions ?iss [])"
    using suggestions_deduplicated [of ?iss "[]"] unfolding f by blast
  have t: "take 2 (generateEnhancedSuggestions ?iss []) = [''Fix it'', ''Reword'']"
    using p by (auto simp: prefix_def)
  show ?thesis
    using suggestions_deduplicated [of ?iss "[]"] m t by blast
qed

section \<open>The image checks of the validator\<close>

lemma trim_Nil: "trim [] = []"
  by (simp add: trim_def)

lemma validateImage_acc: "validateImage i img rs = rs @ validateImage i img []"
  by (simp add: validateImage_def Let_def split: option.splits)

lemma validateImages_fold:
  "fold (\<lambda>(i, img) results. validateImage i img results) (enumerate n imgs) rs
     = rs @ concat (map (\<lambda>(i, img). validateImage i img []) (enumerate n imgs))"
proof (induction imgs arbitrary: n rs)
  case Nil
  then show ?case by simp
next
  case (Cons img imgs)
  show ?case
    using validateImage_acc [of n img rs] by (simp add: Cons.IH)
qed

lemma validateImages_concat:
  "validateImages imgs = concat (map (\<lambda>(i, img). validateImage i img []) (enumerate 0 imgs))"
  by (simp add: validateImages_def validateImages_fold)

lemma validateImage_length: "length (validateImage i img []) \<le> Suc 0"
  by (simp add: validateImage_def Let_def split: option.splits)

lemma length_concat_le:
  "(\<And>x. x \<in> set xs \<Longrightarrow> length (f x) \<le> Suc 0) \<Longrightarrow> length (concat (map f xs)) \<le> length xs"
proof (induction xs)
  case Nil
  then show ?case by simp
next
  case (Cons x xs)
  have "length (f x) \<le> Suc 0" by (rule Cons.prems) simp
  moreover have "length (concat (map f xs)) \<le> length xs"
    by (rule Cons.IH) (simp add: Cons.prems)
  ultimately show ?case by simp
qed

text \<open>
  C9. The validator emits at most one result for an image: the result for a missing, empty
  or blank alt when that test holds; otherwise the result for an alt of more than 125
  characters when that holds; otherwise the result for a generic alt when that holds;
  otherwise none. The results of validateImages are these, image by image.
\<close>

theorem validateImages_one_result_per_image:
  "validateImages imgs = concat (map (\<lambda>(i, img). validateImage i img []) (enumerate 0 imgs))
   \<and> length (validateImages imgs) \<le> length imgs
   \<and> length (validateImage i img []) \<le> 1
   \<and> (altMissing img \<longrightarrow> validateImage i img [] = [missingAltResult (imageElement i img)])
   \<and> (\<not> altMissing img \<and> length (the (alt img)) > 125
        \<longrightarrow> validateImage i img [] = [longAltResult (imageElement i img)])
   \<and> (\<not> altMissing img \<and> length (the (alt img)) \<le> 125 \<and> isGenericAltText (the (alt img))
        \<longrightarrow> validateImage i img [] = [genericAltResult (imageElement i img)])
   \<and> (\<not> altMissing img \<and> length (the (alt img)) \<le> 125 \<and> \<not> isGenericAltText (the (alt img))
        \<longrightarrow> validateImage i img [] = [])"
proof -
  have len: "length (validateImages imgs) \<le> length imgs"
  proof -
    have "length (concat (map (\<lambda>(i, img). validateImage i img []) (enumerate 0 imgs)))
            \<le> length (enumerate 0 imgs)"
      by (rule length_concat_le) (auto simp: validateImage_length)
    then show ?thesis by (simp add: validateImages_concat)
  qed
  have cases: "(altMissing img \<longrightarrow> validateImage i img [] = [missingAltResult (imageElement i img)])
   \<and> (\<not> altMissing img \<and> length (the (alt img)) > 125
        \<longrightarrow> validateImage i img [] = [longAltResult (imageElement i img)])
   \<and> (\<not> altMissing img \<and> length (the (alt img)) \<le> 125 \<and> isGenericAltText (the (alt img))
        \<longrightarrow> validateImage i img [] = [genericAltResult (imageElement i img)])
   \<and> (\<not> altMissing img \<and> length (the (alt img)) \<le> 125 \<and> \<not> isGenericAltText (the (alt img))
        \<longrightarrow> validateImage i img [] = [])"
    by (cases "alt img") (auto simp: validateImage_def altMissing_def imageElement_def Let_def)
  show ?thesis
    using len cases validateImage_length [of i img] validateImages_concat [of imgs] by simp
qed

theorem validateImages_one_result_per_image_witness:
  "altMissing blankAltImage
   \<and> validateImage 0 blankAltImage [] = [missingAltResult (imageElement 0 blankAltImage)]
   \<and> \<not> altMissing longAltImage \<and> length (the (alt longAltImage)) > 125
   \<and> isGenericAltText (the (alt longAltImage))
   \<and> validateImage 1 longAltImage [] = [longAltResult (imageElement 1 longAltImage)]
   \<and> \<not> altMissing logoImage \<and> length (the (alt logoImage)) \<le> 125
   \<and> isGenericAltText (the (alt logoImage))
   \<and> validateImage 2 logoImage [] = [genericAltResult (imageElement 2 logoImage)]
   \<and> \<not> altMissing describedImage \<and> length (the (alt describedImage)) \<le> 125
   \<and> \<not> isGenericAltText (the (alt describedImage))
   \<and> validateImage 3 describedImage [] = []
   \<and> length (validateImages [blankAltImage, longAltImage, logoImage, describedImage]) \<le> 4"
proof -
  have a: "altMissing blankAltImage" by code_simp
  have b: "\<not> altMissing longAltImage \<and> length (the (alt longAltImage)) > 125
           \<and> isGenericAltText (the (alt longAltImage))" by code_simp
  have c: "\<not> altMissing logoImage \<and> length (the (alt logoImage)) \<le> 125
           \<and> isGenericAltText (the (alt logoImage))" by code_simp
  have d: "\<not> altMissing describedImage \<and> length (the (alt describedImage)) \<le> 125
           \<and> \<not> isGenericAltText (the (alt describedImage))" by code_simp
  have ra: "validateImage 0 blankAltImage [] = [missingAltResult (imageElement 0 blankAltImage)]"
    using a validateImages_one_result_per_image [where i = 0 and img = blankAltImage] by blast
  have rb: "validateImage 1 longAltImage [] = [longAltResult (imageElement 1 longAltImage)]"
    using b validateImages_one_result_per_image [where i = 1 and img = longAltImage] by blast
  have rc: "validateImage 2 logoImage [] = [genericAltResult (imageElement 2 logoImage)]"
    using c validateImages_one_result_per_image [where i = 2 and img = logoImage] by blast
  have rd: "validateImage 3 describedImage [] = []"
    using d validateImages_one_result_per_image [where i = 3 and img = describedImage] by blast
  have len: "length (validateImages [blankAltImage, longAltImage, logoImage, describedImage])
               \<le> length [blankAltImage, longAltImage, logoImage, describedImage]"
    using validateImages_one_result_per_image
      [where imgs = "[blankAltImage, longAltImage, logoImage, describedImage]"] by blast
  show ?thesis
    using a b c d ra rb rc rd len by simp
qed

section \<open>Images without data\<close>
lemma no_payload_step: "\<not> hasPayload img \<Longrightarrow> analyzeImageStep gc content i img st = st"
  by (cases "data img"; cases "mimeType img") (auto simp: hasPayload_def analyzeImageStep_def)

lemma payload_entries:
  "snd (imageContribution gc content i img)
     = (if hasPayload img
        then [(src img, analyzeImage gc i (the (data img)) (the (mimeType img))
                          (extractImageContext content (src img)))]
        else [])"
  by (cases "data img"; cases "mimeType img")
     (auto simp: hasPayload_def imageContribution_def analyzeImageStep_def Let_def)

lemma entries_src:
  "map fst (concat (map (\<lambda>(i, img). snd (imageContribution gc content i img)) (enumerate n imgs)))
     = map src (filter hasPayload imgs)"
  by (induction imgs arbitrary: n) (simp_all add: payload_entries)

lemma validateImage_ignores_payload:
  "validateImage i (img\<lparr>data := d, mimeType := m\<rparr>) rs = validateImage i img rs"
  by (simp add: validateImage_def)

text \<open>
  C10. An image whose descriptor lacks data or lacks the MIME type (or holds an empty one)
  is skipped by the image loop: it adds no entry to imageAnalyses and no issue, the entries of
  the report are those of the images that carry both, and the validator's image check does
  not read the two fields, so its results, the first of the validator's, are the same.
\<close>

theorem image_without_payload_skipped:
  "(data img = None \<or> mimeType img = None \<longrightarrow> \<not> hasPayload img)
   \<and> (\<not> hasPayload img
        \<longrightarrow> analyzeImageStep gc content i img st = st
          \<and> imageContribution gc content i img = ([], []))
   \<and> imageAnalyses (checkContent cl gc content images)
       = concat (map (\<lambda>(i, img). snd (imageContribution gc content i img))
                     (enumerate 0 (imagesOrEmpty images)))
   \<and> aiImageIssues gc content (imagesOrEmpty images)
       = concat (map (\<lambda>(i, img). fst (imageContribution gc content i img))
                     (enumerate 0 (imagesOrEmpty images)))
   \<and> map fst (imageAnalyses (checkContent cl gc content images))
       = map src (filter hasPayload (imagesOrEmpty images))
   \<and> validateImage i (img\<lparr>data := d, mimeType := m\<rparr>) rs = validateImage i img rs
   \<and> take (length (validateImages (imagesOrEmpty images)))
          (validateContent cl content (imagesOrEmpty images))
       = concat (map (\<lambda>(i, img). validateImage i img []) (enumerate 0 (imagesOrEmpty images)))"
proof -
  have 1: "data img = None \<or> mimeType img = None \<longrightarrow> \<not> hasPayload img"
    by (auto simp: hasPayload_def)
  have 2: "\<not> hasPayload img
        \<longrightarrow> analyzeImageStep gc content i img st = st
          \<and> imageContribution gc content i img = ([], [])"
    by (simp add: no_payload_step imageContribution_def)
  have 3: "map fst (imageAnalyses (checkContent cl gc content images))
       = map src (filter hasPayload (imagesOrEmpty images))"
    by (simp only: checkContent_imageAnalyses entries_src)
  have 4: "take (length (validateImages (imagesOrEmpty images)))
          (validateContent cl content (imagesOrEmpty images))
       = concat (map (\<lambda>(i, img). validateImage i img []) (enumerate 0 (imagesOrEmpty images)))"
    using validateImages_concat [of "imagesOrEmpty images"] by (simp add: validateContent_def)
  show ?thesis
    using 1 2 3 4 checkContent_imageAnalyses [of cl gc content images]
      aiImageIssues_eq [of gc content "imagesOrEmpty images"]
      validateImage_ignores_payload [where i = i and img = img and d = d and m = m and rs = rs]
    by simp
qed

theorem image_without_payload_skipped_witness:
  "data bareImage = None
   \<and> imageContribution scriptedClient imgContent 1 bareImage = ([], [])
   \<and> map fst (imageAnalyses (checkContent noColors scriptedClient imgContent
                 (Some [describedImage, bareImage]))) = [''e.png'']
   \<and> map message (validateImages [describedImage, bareImage]) = [''Image is missing alt text'']"
proof -
  have d: "data bareImage = None" by (simp add: bareImage_def)
  have f: "map src (filter hasPayload (imagesOrEmpty (Some [describedImage, bareImage]))) = [''e.png'']"
    by code_simp
  have v: "map message (validateImages [describedImage, bareImage]) = [''Image is missing alt text'']"
    by code_simp
  note t = image_without_payload_skipped [where img = bareImage and gc = scriptedClient
        and content = imgContent and i = 1 and cl = noColors and st = "([], [])"
        and d = None and m = None and rs = "[]"
        and images = "Some [describedImage, bareImage]"]
  have np: "\<not> hasPayload bareImage"
    using d t by blast
  have c: "imageContribution scriptedClient imgContent 1 bareImage = ([], [])"
    using np t by blast
  have e: "map fst (imageAnalyses (checkContent noColors scriptedClient imgContent
                 (Some [describedImage, bareImage])))
             = map src (filter hasPayload (imagesOrEmpty (Some [describedImage, bareImage])))"
    using t by blast
  show ?thesis
    using d c v unfolding e f by simp
qed

section \<open>A failed image analysis\<close>

lemma payload_contribution:
  assumes "data img = Some d" "d \<noteq> []" "mimeType img = Some mt" "mt \<noteq> []"
  shows "imageContribution gc content i img
           = (analysisIssues_of content i img
                (analyzeImage gc i d mt (extractImageContext content (src img))),
              [(src img, analyzeImage gc i d mt (extractImageContext content (src img)))])"
  using assms by (simp add: imageContribution_def analyzeImageStep_def Let_def)

lemma parseAnalysisResponse_cong:
  assumes "jsonParseAnalysis gc' = jsonParseAnalysis gc"
  shows "parseAnalysisResponse gc' reply = parseAnalysisResponse gc reply"
  unfolding parseAnalysisResponse_def assms ..

lemma parseAccessibilityAnalysis_cong:
  assumes "jsonParseContent gc' = jsonParseContent gc"
  shows "parseAccessibilityAnalysis gc' reply = parseAccessibilityAnalysis gc reply"
  unfolding parseAccessibilityAnalysis_def assms ..

lemma analyzeImage_cong:
  assumes "visionModel gc' j = visionModel gc j"
    and "jsonParseAnalysis gc' = jsonParseAnalysis gc"
  shows "analyzeImage gc' j d mt ctx = analyzeImage gc j d mt ctx"
  unfolding analyzeImage_def assms(1) parseAnalysisResponse_cong [OF assms(2)] ..

lemma imageContribution_cong:
  assumes "visionModel gc' j = visionModel gc j"
    and "jsonParseAnalysis gc' = jsonParseAnalysis gc"
  shows "imageContribution gc content j img = imageContribution gc' content j img"
  unfolding imageContribution_def analyzeImageStep_def analyzeImage_cong [OF assms] ..

lemma geminiIssues_cong:
  assumes "textModel gc' = textModel gc"
    and "jsonParseContent gc' = jsonParseContent gc"
  shows "geminiIssues gc content = geminiIssues gc' content"
  unfolding geminiIssues_def analyzeContentAccessibility_def assms(1)
    parseAccessibilityAnalysis_cong [OF assms(2)] ..

lemma analyzeImageStepAwaited_eq:
  "analyzeImageStepAwaited pv content i img st
     = (if callSettles pv content i img
        then Some (analyzeImageStep (client pv) content i img st) else None)"
  by (cases "data img"; cases "mimeType img")
     (auto simp: analyzeImageStepAwaited_def callSettles_def analyzeImageStep_def
        analyzeImageAwaited_def Let_def)

lemma analyzeImagesAwaited_eq:
  "analyzeImagesAwaited pv content xs st
     = (if list_all (\<lambda>(i, img). callSettles pv content i img) xs
        then Some (fold (\<lambda>(i, img) st. analyzeImageStep (client pv) content i img st) xs st)
        else None)"
proof (induction xs arbitrary: st)
  case Nil
  then show ?case by simp
next
  case (Cons x xs)
  obtain i img where x: "x = (i, img)" by (cases x)
  show ?case
    unfolding x by (simp add: analyzeImageStepAwaited_eq Cons.IH)
qed

lemma geminiIssuesAwaited_eq:
  "geminiIssuesAwaited pv content
     = (if textSettles pv content then Some (geminiIssues (client pv) content) else None)"
  by (simp add: geminiIssuesAwaited_def analyzeContentAwaited_def geminiIssues_def
        split: GeminiResult.splits option.splits)

lemma checkContentAwaited_eq:
  "checkContentAwaited cl pv content images
     = (if allCallsSettle pv content (imagesOrEmpty images)
        then Some (checkContent cl (client pv) content images) else None)"
proof (cases images)
  case None
  then show ?thesis
    by (simp add: checkContentAwaited_def checkContent_def allCallsSettle_def imagesOrEmpty_def
          geminiIssuesAwaited_eq Let_def)
next
  case (Some imgs)
  then show ?thesis
    by (simp add: checkContentAwaited_def checkContent_def allCallsSettle_def imagesOrEmpty_def
          geminiIssuesAwaited_eq analyzeImagesAwaited_eq analyzeImages_def Let_def
          split: prod.splits)
qed

lemma unparsable_reply_gives_placeholder:
  assumes "visionModel gc k ctx d mt = Inr reply"
    and "search flagsNone braceRegex reply = Some m"
    and "jsonParseAnalysis gc (matched m) = None"
  shows "analyzeImage gc k d mt ctx = getFallbackAnalysis"
  using assms by (simp add: analyzeImage_def parseAnalysisResponse_def)

text \<open>
  C5, as the claim states it, fails. The code sets no timer, so an analysis that times out
  is a call that never settles: with the provider whose call for the image at position 1
  never settles, analyzeImage returns no placeholder for that image and checkContent returns
  no report.
\<close>

theorem unsettled_call_counterexample:
  "analyzeImageAwaited stalledProvider 1 ''AAAA'' ''image/jpeg''
      (extractImageContext imgContent ''a.jpg'') = None
   \<and> checkContentAwaited noColors stalledProvider imgContent
        (Some [describedImage, payloadImage, describedImage]) = None"
  by code_simp

text \<open>
  C5, amended. When the call for an image settles and is rejected (an error of the API, or
  a timeout that the service itself raises), analyzeImage returns the placeholder analysis: not
  decorative, the alt text \<^verbatim>\<open>Image description not available\<close>, confidence low. The image still
  gets its entry, with the placeholder. What the report holds for every other image and for
  the content is what it holds with a service that differs only in its answer to that one
  call, and the score is the same. checkContent returns the report, with an entry for every
  image with data and all five segments of issues, exactly when every call it awaits settles;
  when one never settles it returns nothing.
\<close>

theorem rejected_analysis_is_isolated:
  assumes "visionSettles pv k ctx d mt"
    and "visionModel (client pv) k ctx d mt = Inl e"
    and "\<forall>j. j \<noteq> k \<longrightarrow> visionModel gc' j = visionModel (client pv) j"
    and "textModel gc' = textModel (client pv)"
    and "jsonParseAnalysis gc' = jsonParseAnalysis (client pv)"
    and "jsonParseContent gc' = jsonParseContent (client pv)"
  shows "analyzeImageAwaited pv k d mt ctx = Some getFallbackAnalysis
   \<and> \<not> decorative getFallbackAnalysis
   \<and> altText getFallbackAnalysis = ''Image description not available''
   \<and> confidence getFallbackAnalysis = ''low''
   \<and> (data img = Some d \<and> d \<noteq> [] \<and> mimeType img = Some mt \<and> mt \<noteq> []
        \<and> ctx = extractImageContext content (src img)
        \<longrightarrow> imageContribution (client pv) content k img
              = (analysisIssues_of content k img getFallbackAnalysis,
                 [(src img, getFallbackAnalysis)]))
   \<and> (\<forall>j other. j \<noteq> k
        \<longrightarrow> imageContribution (client pv) content j other
              = imageContribution gc' content j other)
   \<and> geminiIssues (client pv) content = geminiIssues gc' content
   \<and> (allCallsSettle pv content (imagesOrEmpty images)
        \<longrightarrow> checkContentAwaited cl pv content images
              = Some (checkContent cl (client pv) content images))
   \<and> (\<not> allCallsSettle pv content (imagesOrEmpty images)
        \<longrightarrow> checkContentAwaited cl pv content images = None)
   \<and> score (checkContent cl (client pv) content images)
       = score (checkContent cl gc' content images)
   \<and> map fst (imageAnalyses (checkContent cl (client pv) content images))
       = map src (filter hasPayload (imagesOrEmpty images))
   \<and> issues (checkContent cl (client pv) content images)
       = wcagIssues (validateContent cl content (imagesOrEmpty images))
         @ concat (map (\<lambda>(j, other). fst (imageContribution (client pv) content j other))
                       (enumerate 0 (imagesOrEmpty images)))
         @ checkHeadingStructure content
         @ checkColorContrast cl content
         @ geminiIssues gc' content"
proof -
  let ?gc = "client pv"
  have fb: "analyzeImage ?gc k d mt ctx = getFallbackAnalysis"
    using assms(2) by (simp add: analyzeImage_def)
  have aw: "analyzeImageAwaited pv k d mt ctx = Some getFallbackAnalysis"
    using assms(1) fb by (simp add: analyzeImageAwaited_def)
  have props: "\<not> decorative getFallbackAnalysis
     \<and> altText getFallbackAnalysis = ''Image description not available''
     \<and> confidence getFallbackAnalysis = ''low''"
    by (simp add: getFallbackAnalysis_def)
  have own: "data img = Some d \<and> d \<noteq> [] \<and> mimeType img = Some mt \<and> mt \<noteq> []
        \<and> ctx = extractImageContext content (src img)
        \<longrightarrow> imageContribution ?gc content k img
              = (analysisIssues_of content k img getFallbackAnalysis,
                 [(src img, getFallbackAnalysis)])"
    using fb by (auto simp: payload_contribution)
  have others: "\<forall>j other. j \<noteq> k
        \<longrightarrow> imageContribution ?gc content j other = imageContribution gc' content j other"
    using assms(3,5) by (auto intro: imageContribution_cong)
  have gem: "geminiIssues ?gc content = geminiIssues gc' content"
    using assms(4,6) by (rule geminiIssues_cong)
  have ret: "(allCallsSettle pv content (imagesOrEmpty images)
        \<longrightarrow> checkContentAwaited cl pv content images
              = Some (checkContent cl ?gc content images))
   \<and> (\<not> allCallsSettle pv content (imagesOrEmpty images)
        \<longrightarrow> checkContentAwaited cl pv content images = None)"
    by (simp add: checkContentAwaited_eq)
  have sc: "score (checkContent cl ?gc content images) = score (checkContent cl gc' content images)"
    by (simp add: checkContent_score)
  have en: "map fst (imageAnalyses (checkContent cl ?gc content images))
       = map src (filter hasPayload (imagesOrEmpty images))"
    by (simp only: checkContent_imageAnalyses entries_src)
  have iss: "issues (checkContent cl ?gc content images)
       = wcagIssues (validateContent cl content (imagesOrEmpty images))
         @ concat (map (\<lambda>(j, other). fst (imageContribution ?gc content j other))
                       (enumerate 0 (imagesOrEmpty images)))
         @ checkHeadingStructure content
         @ checkColorContrast cl content
         @ geminiIssues gc' content"
    by (simp only: checkContent_issues aiImageIssues_eq gem)
  show ?thesis
    using aw props own others gem ret sc en iss by blast
qed

theorem rejected_analysis_is_isolated_witness:
  "visionSettles scriptedProvider 1 (extractImageContext imgContent (src payloadImage)) ''AAAA''
      ''image/jpeg''
   \<and> visionModel (client scriptedProvider) 1 (extractImageContext imgContent (src payloadImage))
        ''AAAA'' ''image/jpeg'' = Inl (ApiError ''quota'')
   \<and> allCallsSettle scriptedProvider imgContent [describedImage, payloadImage, describedImage]
   \<and> analyzeImageAwaited scriptedProvider 1 ''AAAA'' ''image/jpeg''
        (extractImageContext imgContent (src payloadImage)) = Some getFallbackAnalysis
   \<and> imageContribution (client scriptedProvider) imgContent 2 describedImage
       = imageContribution answeringClient imgContent 2 describedImage
   \<and> checkContentAwaited noColors scriptedProvider imgContent
        (Some [describedImage, payloadImage, describedImage])
       = Some (checkContent noColors (client scriptedProvider) imgContent
                 (Some [describedImage, payloadImage, describedImage]))
   \<and> map (\<lambda>e. (fst e, confidence (snd e)))
        (imageAnalyses (checkContent noColors (client scriptedProvider) imgContent
           (Some [describedImage, payloadImage, describedImage])))
       = [(''e.png'', ''medium''), (''a.jpg'', ''low''), (''e.png'', ''medium'')]
   \<and> score (checkContent noColors (client scriptedProvider) imgContent
        (Some [describedImage, payloadImage, describedImage]))
       = score (checkContent noColors answeringClient imgContent
        (Some [describedImage, payloadImage, describedImage]))"
proof -
  have c: "client scriptedProvider = scriptedClient"
    by (simp add: scriptedProvider_def)
  have h0: "visionSettles scriptedProvider 1 (extractImageContext imgContent (src payloadImage))
      ''AAAA'' ''image/jpeg''"
    by (simp add: scriptedProvider_def)
  have h1: "visionModel (client scriptedProvider) 1
      (extractImageContext imgContent (src payloadImage)) ''AAAA'' ''image/jpeg''
        = Inl (ApiError ''quota'')"
    by (simp add: c scriptedClient_def)
  have h2: "\<forall>j. j \<noteq> 1
      \<longrightarrow> visionModel answeringClient j = visionModel (client scriptedProvider) j"
    by (simp add: c answeringClient_def scriptedClient_def fun_eq_iff)
  have h3: "textModel answeringClient = textModel (client scriptedProvider)"
    by (simp add: c answeringClient_def)
  have h4: "jsonParseAnalysis answeringClient = jsonParseAnalysis (client scriptedProvider)"
    by (simp add: c answeringClient_def)
  have h5: "jsonParseContent answeringClient = jsonParseContent (client scriptedProvider)"
    by (simp add: c answeringClient_def)
  have s: "allCallsSettle scriptedProvider imgContent
             (imagesOrEmpty (Some [describedImage, payloadImage, describedImage]))"
    by (simp add: allCallsSettle_def callSettles_def scriptedProvider_def imagesOrEmpty_def
          split: option.splits)
  note t = rejected_analysis_is_isolated [OF h0 h1 h2 h3 h4 h5, where img = payloadImage
      and content = imgContent and cl = noColors
      and images = "Some [describedImage, payloadImage, describedImage]"]
  have a: "analyzeImageAwaited scriptedProvider 1 ''AAAA'' ''image/jpeg''
        (extractImageContext imgContent (src payloadImage)) = Some getFallbackAnalysis"
    using t by blast
  have o: "imageContribution (client scriptedProvider) imgContent 2 describedImage
       = imageContribution answeringClient imgContent 2 describedImage"
    using t by auto
  have r: "checkContentAwaited noColors scriptedProvider imgContent
        (Some [describedImage, payloadImage, describedImage])
       = Some (checkContent noColors (client scriptedProvider) imgContent
                 (Some [describedImage, payloadImage, describedImage]))"
    using t s by blast
  have sc: "score (checkContent noColors (client scriptedProvider) imgContent
        (Some [describedImage, payloadImage, describedImage]))
       = score (checkContent noColors answeringClient imgContent
        (Some [describedImage, payloadImage, describedImage]))"
    using t by blast
  have v: "map (\<lambda>e. (fst e, confidence (snd e)))
        (imageAnalyses (checkContent noColors (client scriptedProvider) imgContent
           (Some [describedImage, payloadImage, describedImage])))
       = [(''e.png'', ''medium''), (''a.jpg'', ''low''), (''e.png'', ''medium'')]"
    by code_simp
  have s': "allCallsSettle scriptedProvider imgContent
              [describedImage, payloadImage, describedImage]"
    using s by (simp add: imagesOrEmpty_def)
  show ?thesis
    using h0 h1 s' a o r sc v by blast
qed

section \<open>The two example contents\<close>










lemma skip_styles: "execAll flagsI styleRegex skipContent = []" by code_simp
lemma skip_colorAttrs: "execAll flagsI colorAttrRegex skipContent = []" by code_simp
lemma skip_semantic: "validateSemanticStructure skipContent = []" by code_simp
lemma skip_aria: "validateARIA skipContent = []" by code_simp
lemma skip_validateHeadings: "wcagIssues (validateHeadings skipContent) =
  [\<lparr>issueId = ''wcag-1.3.1-0'', issueType = SemanticType, issueSeverity = Medium,
    issueElement = ''Heading 2'', description = ''Heading level skips from H1 to H3'',
    recommendation = ''Use H2 instead of H3 to maintain proper hierarchy'',
    issueAutoFixable = True\<rparr>]" by code_simp
lemma skip_checkHeadings: "checkHeadingStructure skipContent =
  [\<lparr>issueId = ''heading-skip-1'', issueType = HeadingType, issueSeverity = Medium,
    issueElement = ''Heading 2'', description = ''Heading level skips from h1 to h3'',
    recommendation = ''Use h2 instead of h3'', issueAutoFixable = True\<rparr>]" by code_simp

lemma skip_validateContent: "validateContent cl skipContent [] = validateHeadings skipContent"
  by (simp add: validateContent_def validateColorContrast_def skip_styles skip_semantic skip_aria
        validateImages_def)

lemma skip_checkColorContrast: "checkColorContrast cl skipContent = []"
  by (simp add: checkColorContrast_def skip_colorAttrs)

text \<open>
  C7, as the claim states it, fails: the report keeps the type the content analysis gives to
  its entries, so for the content \<^verbatim>\<open><h1>Title</h1><h3>Sub</h3>\<close>, no images, and a service
  whose content reply holds one entry typed as heading, the report holds two issues of type
  heading.
\<close>

theorem single_heading_issue_counterexample:
  "map (\<lambda>i. (issueId i, issueType i))
       (issues (checkContent noColors scriptedClient skipContent None))
     = [(''wcag-1.3.1-0'', SemanticType), (''heading-skip-1'', HeadingType),
        (''gemini-0'', HeadingType)]
   \<and> length (filter (\<lambda>i. issueType i = HeadingType)
        (issues (checkContent noColors scriptedClient skipContent None))) \<noteq> 1"
  by code_simp

text \<open>
  C7, amended. For the content \<^verbatim>\<open><h1>Title</h1><h3>Sub</h3>\<close> and no images, the issues of
  the report are the validator's skip issue, which rule 1.3.1 types as semantic, the heading
  issue of checkHeadingStructure, of severity medium, with the description
  \<^verbatim>\<open>Heading level skips from h1 to h3\<close>, and then the issues of the content analysis. The
  issues of type heading are that one issue followed by those the content analysis types as
  heading; when it types none so, the report holds exactly one issue of type heading.
\<close>

theorem heading_skip_report:
  assumes "imagesOrEmpty images = []"
  shows "issues (checkContent cl gc skipContent images)
     = [\<lparr>issueId = ''wcag-1.3.1-0'', issueType = SemanticType, issueSeverity = Medium,
         issueElement = ''Heading 2'', description = ''Heading level skips from H1 to H3'',
         recommendation = ''Use H2 instead of H3 to maintain proper hierarchy'',
         issueAutoFixable = True\<rparr>,
        \<lparr>issueId = ''heading-skip-1'', issueType = HeadingType, issueSeverity = Medium,
         issueElement = ''Heading 2'', description = ''Heading level skips from h1 to h3'',
         recommendation = ''Use h2 instead of h3'', issueAutoFixable = True\<rparr>]
       @ geminiIssues gc skipContent
   \<and> filter (\<lambda>i. issueType i = HeadingType) (issues (checkContent cl gc skipContent images))
     = \<lparr>issueId = ''heading-skip-1'', issueType = HeadingType, issueSeverity = Medium,
        issueElement = ''Heading 2'', description = ''Heading level skips from h1 to h3'',
        recommendation = ''Use h2 instead of h3'', issueAutoFixable = True\<rparr>
       # filter (\<lambda>i. issueType i = HeadingType) (geminiIssues gc skipContent)
   \<and> ((\<forall>i \<in> set (geminiIssues gc skipContent). issueType i \<noteq> HeadingType)
        \<longrightarrow> filter (\<lambda>i. issueType i = HeadingType) (issues (checkContent cl gc skipContent images))
              = [\<lparr>issueId = ''heading-skip-1'', issueType = HeadingType, issueSeverity = Medium,
                  issueElement = ''Heading 2'',
                  description = ''Heading level skips from h1 to h3'',
                  recommendation = ''Use h2 instead of h3'', issueAutoFixable = True\<rparr>])"
proof -
  have i: "issues (checkContent cl gc skipContent images)
     = wcagIssues (validateHeadings skipContent) @ checkHeadingStructure skipContent
       @ geminiIssues gc skipContent"
    using assms
    by (simp add: checkContent_issues skip_validateContent aiImageIssues_eq skip_checkColorContrast)
  have f: "(\<forall>i \<in> set xs. issueType i \<noteq> HeadingType)
             \<longrightarrow> filter (\<lambda>i. issueType i = HeadingType) xs = []"
    for xs :: "AccessibilityIssue list"
    by (induction xs) auto
  show ?thesis
    unfolding i skip_validateHeadings skip_checkHeadings using f [of "geminiIssues gc skipContent"]
    by simp
qed

theorem heading_skip_report_witness:
  "imagesOrEmpty None = []
   \<and> geminiIssues offlineClient skipContent = []
   \<and> map description (filter (\<lambda>i. issueType i = HeadingType)
        (issues (checkContent noColors offlineClient skipContent None)))
       = [''Heading level skips from h1 to h3'']
   \<and> map issueSeverity (filter (\<lambda>i. issueType i = HeadingType)
        (issues (checkContent noColors offlineClient skipContent None))) = [Medium]"
proof -
  have n: "imagesOrEmpty None = []" by (simp add: imagesOrEmpty_def)
  have g: "geminiIssues offlineClient skipContent = []"
    by (simp add: geminiIssues_def analyzeContentAccessibility_def offlineClient_def)
  show ?thesis
    using n g heading_skip_report [OF n, of noColors offlineClient] by simp
qed

end
